theory Spec2Isabelle
  imports Main
begin

section \<open>Service integration tool: analysis and integration\<close>

text \<open>
  A shallow embedding of \<^verbatim>\<open>scripts/integrate/analyze_and_integrate.py\<close> and of its older
  copy \<^verbatim>\<open>scripts/analyze_and_integrate.py\<close>. Where the two copies differ, the definition
  taken from the older copy carries the suffix \<open>_old\<close>.

  Text is modelled as HOL strings. Character classes and case mappings are the ASCII
  ones; Python's Unicode-aware classes agree with them on ASCII text. Console output
  (\<^verbatim>\<open>print\<close> and the prompt texts of \<^verbatim>\<open>input\<close>) is not part of the model.
  The operating system is a POSIX one and is taken to do what it is asked: creating and
  removing the temporary directory succeeds, and so does opening a file that exists; what
  can fail is the fetch, the parsing of \<^verbatim>\<open>package.json\<close>, opening a file that does not
  exist or whose directory does not exist, the end of the user's input, and the operations
  of Python itself. Files are opened in text mode: reading turns every \<^verbatim>\<open>\r\n\<close> and every
  other \<^verbatim>\<open>\r\<close> into \<^verbatim>\<open>\n\<close>, writing stores the text as it is.
\<close>

subsection \<open>Characters\<close>

definition lower_chars :: string where
  "lower_chars = ''abcdefghijklmnopqrstuvwxyz''"

definition upper_chars :: string where
  "upper_chars = ''ABCDEFGHIJKLMNOPQRSTUVWXYZ''"

definition digit_chars :: string where
  "digit_chars = ''0123456789''"

definition is_lower :: "char \<Rightarrow> bool" where
  "is_lower c = (c \<in> set lower_chars)"

definition is_upper :: "char \<Rightarrow> bool" where
  "is_upper c = (c \<in> set upper_chars)"

definition is_digit :: "char \<Rightarrow> bool" where
  "is_digit c = (c \<in> set digit_chars)"

subsection \<open>Exceptions and results\<close>

text \<open>
  Every \<^verbatim>\<open>raise\<close> of the program is a value: a computation returns \<open>Inl e\<close> when
  the Python raises the exception \<open>e\<close>, and \<open>Inr v\<close> when it returns \<open>v\<close>.
\<close>

datatype exn =
    IndexError | TypeError | KeyError | AttributeError | EOFError
  | JSONDecodeError | CalledProcessError | FileNotFoundError | IsADirectoryError
  | NotADirectoryError | ReError

definition exn_bind :: "exn + 'a \<Rightarrow> ('a \<Rightarrow> exn + 'b) \<Rightarrow> exn + 'b" where
  "exn_bind r f = (case r of Inl e \<Rightarrow> Inl e | Inr x \<Rightarrow> f x)"

subsection \<open>Python values\<close>

text \<open>
  The values a fact sheet holds: \<^verbatim>\<open>None\<close>, booleans, integers, strings and lists of
  strings. (The three fields read from \<^verbatim>\<open>package.json\<close> are modelled for JSON scalars.)
\<close>

datatype pyval = PNone | PBool bool | PInt int | PStr string | PList "string list"

type_synonym pydict = "string \<rightharpoonup> pyval"

fun truthy :: "pyval \<Rightarrow> bool" where
  "truthy PNone = False"
| "truthy (PBool b) = b"
| "truthy (PInt i) = (i \<noteq> 0)"
| "truthy (PStr s) = (s \<noteq> [])"
| "truthy (PList xs) = (xs \<noteq> [])"

text \<open>\<^verbatim>\<open>a or b\<close>\<close>

definition py_or :: "pyval \<Rightarrow> pyval \<Rightarrow> pyval" where
  "py_or a b = (if truthy a then a else b)"

text \<open>\<^verbatim>\<open>d.get(k, default)\<close>\<close>

definition py_get :: "pydict \<Rightarrow> string \<Rightarrow> pyval \<Rightarrow> pyval" where
  "py_get d k dflt = (case d k of None \<Rightarrow> dflt | Some v \<Rightarrow> v)"

text \<open>\<^verbatim>\<open>d[k]\<close>\<close>

definition py_item :: "pydict \<Rightarrow> string \<Rightarrow> exn + pyval" where
  "py_item d k = (case d k of None \<Rightarrow> Inl KeyError | Some v \<Rightarrow> Inr v)"

text \<open>\<^verbatim>\<open>v[0]\<close>: the first element of a list, the first character of a string.\<close>

fun py_index0 :: "pyval \<Rightarrow> exn + pyval" where
  "py_index0 (PList []) = Inl IndexError"
| "py_index0 (PList (x # xs)) = Inr (PStr x)"
| "py_index0 (PStr []) = Inl IndexError"
| "py_index0 (PStr (c # cs)) = Inr (PStr [c])"
| "py_index0 v = Inl TypeError"

text \<open>\<^verbatim>\<open>v[:n]\<close>\<close>

fun py_slice_to :: "nat \<Rightarrow> pyval \<Rightarrow> exn + pyval" where
  "py_slice_to n (PStr s) = Inr (PStr (take n s))"
| "py_slice_to n (PList xs) = Inr (PList (take n xs))"
| "py_slice_to n v = Inl TypeError"

text \<open>\<^verbatim>\<open>len(v)\<close>\<close>

fun py_len :: "pyval \<Rightarrow> exn + nat" where
  "py_len (PStr s) = Inr (length s)"
| "py_len (PList xs) = Inr (length xs)"
| "py_len v = Inl TypeError"

subsection \<open>Case mappings\<close>

definition to_lower :: "char \<Rightarrow> char" where
  "to_lower c = (case map_of (zip upper_chars lower_chars) c of None \<Rightarrow> c | Some d \<Rightarrow> d)"

definition to_upper :: "char \<Rightarrow> char" where
  "to_upper c = (case map_of (zip lower_chars upper_chars) c of None \<Rightarrow> c | Some d \<Rightarrow> d)"

definition lower :: "string \<Rightarrow> string" where
  "lower s = map to_lower s"

definition upper :: "string \<Rightarrow> string" where
  "upper s = map to_upper s"

subsection \<open>Formatting values\<close>

text \<open>
  \<^verbatim>\<open>str(v)\<close>, which an f-string applies to each interpolated value. A list is shown
  as the \<^verbatim>\<open>repr\<close> of its elements.
\<close>

definition hex_digit :: "nat \<Rightarrow> char" where
  "hex_digit n = ''0123456789abcdef'' ! (n mod 16)"

definition repr_char :: "char \<Rightarrow> char \<Rightarrow> string" where
  "repr_char q c =
     (if c = CHR 0x5C then [CHR 0x5C, CHR 0x5C]
      else if c = q then [CHR 0x5C, q]
      else if c = CHR 0x0A then [CHR 0x5C, CHR ''n'']
      else if c = CHR 0x09 then [CHR 0x5C, CHR ''t'']
      else if c = CHR 0x0D then [CHR 0x5C, CHR ''r'']
      else if (of_char c :: nat) < 32 \<or> (of_char c :: nat) = 127
        then [CHR 0x5C, CHR ''x'', hex_digit ((of_char c :: nat) div 16), hex_digit (of_char c)]
      else [c])"

definition py_repr_str :: "string \<Rightarrow> string" where
  "py_repr_str s =
     (let q = (if CHR 0x27 \<in> set s \<and> CHR 0x22 \<notin> set s then CHR 0x22 else CHR 0x27)
      in [q] @ concat (map (repr_char q) s) @ [q])"

fun join :: "string \<Rightarrow> string list \<Rightarrow> string" where
  "join sep [] = []"
| "join sep [x] = x"
| "join sep (x # y # ys) = x @ sep @ join sep (y # ys)"

function digits_of :: "nat \<Rightarrow> string" where
  "digits_of n = (if n < 10 then [digit_chars ! n] else digits_of (n div 10) @ [digit_chars ! (n mod 10)])"
  by pat_completeness auto
termination
  by (relation "measure id") auto

definition py_str_int :: "int \<Rightarrow> string" where
  "py_str_int i = (if i < 0 then CHR ''-'' # digits_of (nat (- i)) else digits_of (nat i))"

fun py_str :: "pyval \<Rightarrow> string" where
  "py_str PNone = ''None''"
| "py_str (PBool b) = (if b then ''True'' else ''False'')"
| "py_str (PInt i) = py_str_int i"
| "py_str (PStr s) = s"
| "py_str (PList xs) = ''['' @ join '', '' (map py_repr_str xs) @ '']''"

subsection \<open>Standard input\<close>

text \<open>
  \<^verbatim>\<open>input(prompt)\<close> reads the next line of the user's responses and raises
  \<^verbatim>\<open>EOFError\<close> when there is none. \<^verbatim>\<open>input(...) or default\<close> keeps a non-empty response
  and otherwise takes the default.
\<close>

fun input :: "string list \<Rightarrow> exn + (string \<times> string list)" where
  "input [] = Inl EOFError"
| "input (l # ls) = Inr (l, ls)"

definition input_or :: "string list \<Rightarrow> pyval \<Rightarrow> exn + (pyval \<times> string list)" where
  "input_or stdin dflt =
     exn_bind (input stdin) (\<lambda>(l, rest). Inr (py_or (PStr l) dflt, rest))"

subsection \<open>Service-name normalisation\<close>

text \<open>
  \<^verbatim>\<open>re.sub(r'[^a-z0-9-]', '', name)\<close>: every character outside the class is replaced by
  the empty string.
\<close>

definition name_char :: "char \<Rightarrow> bool" where
  "name_char c = (is_lower c \<or> is_digit c \<or> c = CHR ''-'')"

definition normalize_name :: "string \<Rightarrow> string" where
  "normalize_name s = filter name_char s"

subsection \<open>Text scanning\<close>

definition nl :: char where
  "nl = CHR 0x0A"

definition cr :: char where
  "cr = CHR 0x0D"

text \<open>
  What \<^verbatim>\<open>f.read()\<close> returns for a file opened in text mode with the stored text \<open>s\<close>:
  universal newlines.
\<close>

fun universal_newlines :: "string \<Rightarrow> string" where
  "universal_newlines [] = []"
| "universal_newlines [c] = (if c = cr then [nl] else [c])"
| "universal_newlines (c # d # cs) =
     (if c = cr then (if d = nl then nl # universal_newlines cs
                      else nl # universal_newlines (d # cs))
      else c # universal_newlines (d # cs))"

text \<open>The class \<^verbatim>\<open>\s\<close> of a \<^verbatim>\<open>str\<close> pattern (also what \<^verbatim>\<open>str.strip\<close> removes), on ASCII.\<close>

definition is_space :: "char \<Rightarrow> bool" where
  "is_space c = (c \<in> set [CHR 0x20, CHR 0x09, CHR 0x0A, CHR 0x0B, CHR 0x0C, CHR 0x0D,
                            CHR 0x1C, CHR 0x1D, CHR 0x1E, CHR 0x1F])"

text \<open>The class \<^verbatim>\<open>\w\<close>, on ASCII.\<close>

definition is_word :: "char \<Rightarrow> bool" where
  "is_word c = (is_lower c \<or> is_upper c \<or> is_digit c \<or> c = CHR ''_'')"

text \<open>The class \<^verbatim>\<open>[A-Z_]\<close>.\<close>

definition is_upper_snake :: "char \<Rightarrow> bool" where
  "is_upper_snake c = (is_upper c \<or> c = CHR ''_'')"

fun starts_with :: "string \<Rightarrow> string \<Rightarrow> bool" where
  "starts_with [] s = True"
| "starts_with (p # ps) [] = False"
| "starts_with (p # ps) (c # cs) = (p = c \<and> starts_with ps cs)"

text \<open>\<^verbatim>\<open>pat in s\<close>\<close>

fun contains :: "string \<Rightarrow> string \<Rightarrow> bool" where
  "contains pat [] = (pat = [])"
| "contains pat (c # cs) = (starts_with pat (c # cs) \<or> contains pat cs)"

text \<open>\<^verbatim>\<open>s.strip()\<close>\<close>

definition strip :: "string \<Rightarrow> string" where
  "strip s = rev (dropWhile is_space (rev (dropWhile is_space s)))"

text \<open>\<^verbatim>\<open>s.split('\n')\<close>\<close>

fun split_on :: "char \<Rightarrow> string \<Rightarrow> string list" where
  "split_on d [] = [[]]"
| "split_on d (c # cs) =
     (if c = d then [] # split_on d cs
      else (case split_on d cs of [] \<Rightarrow> [[c]] | x # xs \<Rightarrow> (c # x) # xs))"

text \<open>
  A pattern with one group is modelled by a function that is given whether the position
  is at the start of a line and the text from the position on, and returns the group and
  the length of the match when the pattern matches there. \<open>findall_from\<close> is
  \<^verbatim>\<open>re.findall\<close>: the matches from left to right, the scan resuming at the end of each match
  (\<open>skip\<close> counts the characters of the last match still to pass).
\<close>

type_synonym matcher = "bool \<Rightarrow> string \<Rightarrow> (string \<times> nat) option"

fun findall_from :: "matcher \<Rightarrow> nat \<Rightarrow> bool \<Rightarrow> string \<Rightarrow> string list" where
  "findall_from m skip bol [] =
     (if skip = 0 then (case m bol [] of None \<Rightarrow> [] | Some (g, n) \<Rightarrow> [g]) else [])"
| "findall_from m skip bol (c # cs) =
     (if 0 < skip then findall_from m (skip - 1) (c = nl) cs
      else (case m bol (c # cs) of
              None \<Rightarrow> findall_from m 0 (c = nl) cs
            | Some (g, n) \<Rightarrow> g # findall_from m (n - 1) (c = nl) cs))"

definition findall :: "matcher \<Rightarrow> string \<Rightarrow> string list" where
  "findall m s = findall_from m 0 True s"

text \<open>\<^verbatim>\<open>re.search\<close>: the group of the leftmost match.\<close>

definition search :: "matcher \<Rightarrow> string \<Rightarrow> string option" where
  "search m s = (case findall m s of [] \<Rightarrow> None | g # gs \<Rightarrow> Some g)"

text \<open>
  A lazy \<^verbatim>\<open>(.*?)\<close> under \<^verbatim>\<open>re.DOTALL\<close> followed by a test \<open>look\<close> that holds at the end
  of the text: the shortest prefix after which \<open>look\<close> holds.
\<close>

fun lazy_until :: "(string \<Rightarrow> bool) \<Rightarrow> string \<Rightarrow> string" where
  "lazy_until look [] = []"
| "lazy_until look (c # cs) = (if look (c # cs) then [] else c # lazy_until look cs)"

text \<open>
  \<^verbatim>\<open>\s+(.+)\<close> at the text \<open>r\<close>: the greedy \<^verbatim>\<open>\s+\<close> takes the whole run of white space and
  \<^verbatim>\<open>(.+)\<close> the rest of the line that follows. When the text ends with the run,
  \<^verbatim>\<open>\s+\<close> gives characters back until \<^verbatim>\<open>(.+)\<close> can take one that is not a newline.
\<close>

definition space_then_line :: "string \<Rightarrow> string option" where
  "space_then_line r =
     (let ws = takeWhile is_space r; after = dropWhile is_space r
      in if ws = [] then None
         else if after \<noteq> [] then Some (takeWhile (\<lambda>c. c \<noteq> nl) after)
         else (case filter (\<lambda>c. c \<noteq> nl) (tl ws) of [] \<Rightarrow> None | x # xs \<Rightarrow> Some [last (x # xs)]))"

subsection \<open>The patterns of ServiceAnalyzer\<close>

text \<open>\<^verbatim>\<open>EXPOSE\s+(\d+)\<close>\<close>

definition re_expose :: matcher where
  "re_expose bol s =
     (let r = drop 6 s; ws = takeWhile is_space r; ds = takeWhile is_digit (dropWhile is_space r)
      in if starts_with ''EXPOSE'' s \<and> ws \<noteq> [] \<and> ds \<noteq> []
         then Some (ds, 6 + length ws + length ds) else None)"

text \<open>\<^verbatim>\<open>ENV\s+([A-Z_]+)\<close>\<close>

definition re_env :: matcher where
  "re_env bol s =
     (let r = drop 3 s; ws = takeWhile is_space r;
          v = takeWhile is_upper_snake (dropWhile is_space r)
      in if starts_with ''ENV'' s \<and> ws \<noteq> [] \<and> v \<noteq> []
         then Some (v, 3 + length ws + length v) else None)"

text \<open>\<^verbatim>\<open>^\s{2}(\w+):\<close> with \<^verbatim>\<open>re.MULTILINE\<close>\<close>

definition re_service :: matcher where
  "re_service bol s =
     (case s of
        c0 # c1 # r \<Rightarrow>
          (let w = takeWhile is_word r
           in if bol \<and> is_space c0 \<and> is_space c1 \<and> w \<noteq> []
                 \<and> starts_with '':'' (dropWhile is_word r)
              then Some (w, 3 + length w) else None)
      | _ \<Rightarrow> None)"

text \<open>\<^verbatim>\<open>image:\s+(.+)\<close>\<close>

definition re_image :: matcher where
  "re_image bol s =
     (if starts_with ''image:'' s
      then (case space_then_line (drop 6 s) of
              None \<Rightarrow> None
            | Some g \<Rightarrow> Some (g, 6 + length (takeWhile is_space (drop 6 s)) + length g))
      else None)"

text \<open>\<^verbatim>\<open>- ["']?(\d+):\<close>\<close>

definition re_port :: matcher where
  "re_port bol s =
     (let r = drop 2 s;
          q = (if starts_with [CHR 0x22] r \<or> starts_with [CHR 0x27] r then 1 else 0);
          ds = takeWhile is_digit (drop q r)
      in if starts_with ''- '' s \<and> ds \<noteq> [] \<and> starts_with '':'' (dropWhile is_digit (drop q r))
         then Some (ds, 2 + q + length ds + 1) else None)"

text \<open>\<^verbatim>\<open>environment:(.*?)(?=\n  [a-z]|\Z)\<close> with \<^verbatim>\<open>re.DOTALL\<close>\<close>

definition next_key :: "string \<Rightarrow> bool" where
  "next_key r = (case r of
      a # b # c # d # _ \<Rightarrow> a = nl \<and> b = CHR 0x20 \<and> c = CHR 0x20 \<and> is_lower d
    | _ \<Rightarrow> False)"

definition re_environment :: matcher where
  "re_environment bol s =
     (if starts_with ''environment:'' s
      then (let g = lazy_until next_key (drop 12 s) in Some (g, 12 + length g))
      else None)"

text \<open>\<^verbatim>\<open>- ([A-Z_]+)(?:=|:)\<close>\<close>

definition re_env_entry :: matcher where
  "re_env_entry bol s =
     (let v = takeWhile is_upper_snake (drop 2 s); r = dropWhile is_upper_snake (drop 2 s)
      in if starts_with ''- '' s \<and> v \<noteq> [] \<and> (starts_with ''='' r \<or> starts_with '':'' r)
         then Some (v, 2 + length v + 1) else None)"

text \<open>\<^verbatim>\<open>^#\s+(.+)$\<close> with \<^verbatim>\<open>re.MULTILINE\<close>\<close>

definition re_title :: matcher where
  "re_title bol s =
     (if bol \<and> starts_with ''#'' s
      then (case space_then_line (drop 1 s) of
              None \<Rightarrow> None
            | Some g \<Rightarrow> Some (g, 1 + length (takeWhile is_space (drop 1 s)) + length g))
      else None)"

text \<open>\<^verbatim>\<open>\n\n(.+?)(?:\n\n|\Z)\<close> with \<^verbatim>\<open>re.DOTALL\<close>\<close>

definition re_paragraph :: matcher where
  "re_paragraph bol s =
     (case s of
        a # b # c # r \<Rightarrow>
          (if a = nl \<and> b = nl
           then (let g = c # lazy_until (starts_with [nl, nl]) r
                 in Some (g, 2 + length g + (if starts_with [nl, nl] (drop (length g) (c # r)) then 2 else 0)))
           else None)
      | _ \<Rightarrow> None)"

text \<open>
  \<^verbatim>\<open>##?\s+Environment Variables(.*?)(?=\n##?\s+|\Z)\<close> with \<^verbatim>\<open>re.DOTALL | re.IGNORECASE\<close>
\<close>

definition after_hashes :: "string \<Rightarrow> string" where
  "after_hashes r = (if starts_with ''#'' r then drop 1 r else r)"

definition next_heading :: "string \<Rightarrow> bool" where
  "next_heading r =
     (starts_with [nl, CHR ''#''] r \<and>
      (case after_hashes (drop 2 r) of [] \<Rightarrow> False | c # _ \<Rightarrow> is_space c))"

definition re_env_heading :: matcher where
  "re_env_heading bol s =
     (let r = after_hashes (drop 1 s); ws = takeWhile is_space r; t = dropWhile is_space r
      in if starts_with ''#'' s \<and> ws \<noteq> []
            \<and> lower (take 21 t) = ''environment variables''
         then (let g = lazy_until next_heading (drop 21 t)
               in Some (g, (length s - length t) + 21 + length g))
         else None)"

text \<open>\<^verbatim>\<open>`([A-Z_]+)`\<close>\<close>

definition re_backtick :: matcher where
  "re_backtick bol s =
     (let v = takeWhile is_upper_snake (drop 1 s)
      in if starts_with [CHR 0x60] s \<and> v \<noteq> []
            \<and> starts_with [CHR 0x60] (dropWhile is_upper_snake (drop 1 s))
         then Some (v, length v + 2) else None)"

subsection \<open>ServiceAnalyzer\<close>

text \<open>
  The cloned repository: the stored text of the files at its root by name, and what
  \<^verbatim>\<open>json.load\<close> makes of \<^verbatim>\<open>package.json\<close> when that file exists (the JSON parser itself is
  not modelled). Each inspector reads its file with \<^verbatim>\<open>f.read()\<close>.
\<close>

datatype json_doc = Json_invalid | Json_not_object | Json_object pydict

record repo =
  files :: "string \<rightharpoonup> string"
  package_json :: json_doc

text \<open>The first of the candidate file names that exists, with the file's content.\<close>

fun first_existing ::
  "(string \<rightharpoonup> string) \<Rightarrow> string list \<Rightarrow> (string \<times> string) option" where
  "first_existing fs [] = None"
| "first_existing fs (n # ns) =
     (case fs n of None \<Rightarrow> first_existing fs ns | Some content \<Rightarrow> Some (n, content))"

definition analyze_dockerfile :: "repo \<Rightarrow> pydict" where
  "analyze_dockerfile r =
     (case files r ''Dockerfile'' of
        None \<Rightarrow> Map.empty
      | Some stored \<Rightarrow>
          (let content = universal_newlines stored
           in [''has_dockerfile'' \<mapsto> PBool True,
               ''exposed_ports'' \<mapsto> PList (findall re_expose content),
               ''env_vars'' \<mapsto> PList (findall re_env content)]))"

definition analyze_docker_compose :: "repo \<Rightarrow> pydict" where
  "analyze_docker_compose r =
     (case first_existing (files r) [''docker-compose.yml'', ''docker-compose.yaml''] of
        None \<Rightarrow> Map.empty
      | Some (compose_file, stored) \<Rightarrow>
          (let content = universal_newlines stored;
               env_vars = (case search re_environment content of
                             None \<Rightarrow> []
                           | Some env_section \<Rightarrow> findall re_env_entry env_section)
           in [''has_docker_compose'' \<mapsto> PBool True,
               ''compose_file'' \<mapsto> PStr compose_file,
               ''services'' \<mapsto> PList (findall re_service content),
               ''image'' \<mapsto> (case search re_image content of
                                 None \<Rightarrow> PNone | Some g \<Rightarrow> PStr (strip g)),
               ''ports'' \<mapsto> PList (findall re_port content),
               ''env_vars'' \<mapsto> PList env_vars,
               ''needs_postgres'' \<mapsto> PBool (contains ''postgres'' (lower content)),
               ''needs_redis'' \<mapsto> PBool (contains ''redis'' (lower content)),
               ''needs_mysql'' \<mapsto> PBool (contains ''mysql'' (lower content)
                                            \<or> contains ''mariadb'' (lower content))]))"

definition analyze_readme :: "string \<Rightarrow> repo \<Rightarrow> pydict" where
  "analyze_readme repo_name r =
     (case first_existing (files r) [''README.md'', ''readme.md'', ''README'', ''README.txt''] of
        None \<Rightarrow> Map.empty
      | Some (readme, stored) \<Rightarrow>
          (let content = universal_newlines stored;
               title = (case search re_title content of None \<Rightarrow> repo_name | Some g \<Rightarrow> g);
               desc = (case search re_paragraph content of None \<Rightarrow> [] | Some g \<Rightarrow> strip g);
               env_vars_documented =
                 (case search re_env_heading content of
                    None \<Rightarrow> []
                  | Some env_section \<Rightarrow> findall re_backtick env_section)
           in [''title'' \<mapsto> PStr title,
               ''description'' \<mapsto> PStr (take 200 (join '' '' (take 3 (split_on nl desc)))),
               ''has_docker_section'' \<mapsto> PBool (contains ''docker'' (lower content)),
               ''documented_env_vars'' \<mapsto> PList env_vars_documented]))"

definition analyze_package_json :: "repo \<Rightarrow> exn + pydict" where
  "analyze_package_json r =
     (case files r ''package.json'' of
        None \<Rightarrow> Inr Map.empty
      | Some _ \<Rightarrow>
          (case package_json r of
             Json_invalid \<Rightarrow> Inl JSONDecodeError
           | Json_not_object \<Rightarrow> Inl AttributeError
           | Json_object data \<Rightarrow>
               Inr [''name'' \<mapsto> py_get data ''name'' PNone,
                    ''description'' \<mapsto> py_get data ''description'' PNone,
                    ''version'' \<mapsto> py_get data ''version'' PNone,
                    ''is_nodejs'' \<mapsto> PBool True]))"

text \<open>
  \<^verbatim>\<open>Path(github_url).stem\<close>: the last component of the path, without its last suffix.
\<close>

definition path_name :: "string \<Rightarrow> string" where
  "path_name p =
     (case filter (\<lambda>x. x \<noteq> [] \<and> x \<noteq> ''.'') (split_on CHR ''/'' p) of
        [] \<Rightarrow> [] | x # xs \<Rightarrow> last (x # xs))"

definition path_stem :: "string \<Rightarrow> string" where
  "path_stem p =
     (let n = path_name p; ext = rev (takeWhile (\<lambda>c. c \<noteq> CHR ''.'') (rev n))
      in if CHR ''.'' \<in> set n \<and> ext \<noteq> [] \<and> Suc (length ext) < length n
         then take (length n - Suc (length ext)) n else n)"

text \<open>\<^verbatim>\<open>github_url.split('/')[-2]\<close>\<close>

definition url_owner :: "string \<Rightarrow> exn + string" where
  "url_owner url =
     (let parts = split_on CHR ''/'' url
      in if length parts < 2 then Inl IndexError else Inr (parts ! (length parts - 2)))"

text \<open>
  The dictionary \<^verbatim>\<open>run_analysis\<close> builds once the repository is cloned: in a dict display
  a later entry replaces an earlier one with the same key, which is \<open>++\<close> on maps.
\<close>

definition merge_analysis :: "string \<Rightarrow> string \<Rightarrow> string \<Rightarrow> repo \<Rightarrow> exn + pydict" where
  "merge_analysis repo_name repo_owner github_url r =
     exn_bind (analyze_package_json r) (\<lambda>package.
       Inr ([''repo_name'' \<mapsto> PStr repo_name,
             ''repo_owner'' \<mapsto> PStr repo_owner,
             ''github_url'' \<mapsto> PStr github_url]
            ++ analyze_dockerfile r
            ++ analyze_docker_compose r
            ++ analyze_readme repo_name r
            ++ package))"

subsection \<open>ServiceIntegrator.interactive_config\<close>

text \<open>The service descriptor \<^verbatim>\<open>self.service_config\<close>.\<close>

record service_config =
  name :: string
  display_name :: pyval
  description :: pyval
  port :: pyval
  image_ref :: pyval
  hostname :: string
  needs_postgres :: pyval
  needs_redis :: pyval

text \<open>\<^verbatim>\<open>analysis[k].lower()\<close> needs a string.\<close>

definition py_str_item :: "pydict \<Rightarrow> string \<Rightarrow> exn + string" where
  "py_str_item d k =
     exn_bind (py_item d k) (\<lambda>v. case v of PStr s \<Rightarrow> Inr s | _ \<Rightarrow> Inl AttributeError)"

text \<open>\<^verbatim>\<open>s.replace(c, '')\<close> for a single character \<open>c\<close>.\<close>

definition remove_char :: "char \<Rightarrow> string \<Rightarrow> string" where
  "remove_char c s = filter (\<lambda>x. x \<noteq> c) s"

text \<open>
  The port default. Current copy:
  \<^verbatim>\<open>ports_list = self.analysis.get('ports', []); default_port = ports_list[0] if ports_list else '3000'\<close>.
  Older copy: \<^verbatim>\<open>default_port = self.analysis.get('ports', [None])[0] or '3000'\<close>.
\<close>

definition default_port :: "pydict \<Rightarrow> exn + pyval" where
  "default_port a =
     (let ports_list = py_get a ''ports'' (PList [])
      in if truthy ports_list then py_index0 ports_list else Inr (PStr ''3000''))"

definition default_port_old :: "pydict \<Rightarrow> exn + pyval" where
  "default_port_old a =
     (case a ''ports'' of
        None \<Rightarrow> Inr (py_or PNone (PStr ''3000''))
      | Some v \<Rightarrow> exn_bind (py_index0 v) (\<lambda>x. Inr (py_or x (PStr ''3000''))))"

text \<open>
  The description default and what building its prompt evaluates. Current copy:
  \<^verbatim>\<open>default_desc = self.analysis.get('description', '') or ''\<close>, then
  \<^verbatim>\<open>default_desc[:50] if default_desc else 'No description available'\<close> and
  \<^verbatim>\<open>len(default_desc) > 50\<close>. Older copy: \<^verbatim>\<open>default_desc = self.analysis.get('description', '')\<close>,
  then \<^verbatim>\<open>default_desc[:50]\<close>.
\<close>

definition default_desc :: "pydict \<Rightarrow> pyval" where
  "default_desc a = py_or (py_get a ''description'' (PStr [])) (PStr [])"

definition desc_prompt :: "pyval \<Rightarrow> exn + unit" where
  "desc_prompt d =
     exn_bind (if truthy d then py_slice_to 50 d else Inr (PStr ''No description available''))
       (\<lambda>_. exn_bind (py_len d) (\<lambda>_. Inr ()))"

definition default_desc_old :: "pydict \<Rightarrow> pyval" where
  "default_desc_old a = py_get a ''description'' (PStr [])"

definition desc_prompt_old :: "pyval \<Rightarrow> exn + unit" where
  "desc_prompt_old d = exn_bind (py_slice_to 50 d) (\<lambda>_. Inr ())"

text \<open>
  The part of \<^verbatim>\<open>interactive_config\<close> the two copies share, with the description and port
  defaults as parameters. The result is the accept/decline decision, the descriptor and
  the responses not yet read.
\<close>

definition interactive_config_with ::
  "(pydict \<Rightarrow> pyval) \<Rightarrow> (pyval \<Rightarrow> exn + unit) \<Rightarrow> (pydict \<Rightarrow> exn + pyval) \<Rightarrow>
   pydict \<Rightarrow> string list \<Rightarrow> exn + (bool \<times> service_config \<times> string list)" where
  "interactive_config_with ddesc dprompt dport a stdin =
     exn_bind (py_str_item a ''repo_name'') (\<lambda>repo_name.
     let default_name = remove_char CHR ''_'' (remove_char CHR ''-'' (lower repo_name)) in
     exn_bind (input stdin) (\<lambda>(l1, s1).
     let service_name = normalize_name (if l1 \<noteq> [] then l1 else default_name);
         default_display = py_get a ''title'' (PStr repo_name) in
     exn_bind (input_or s1 default_display) (\<lambda>(display, s2).
     exn_bind (dprompt (ddesc a)) (\<lambda>_.
     exn_bind (input_or s2 (ddesc a)) (\<lambda>(desc, s3).
     exn_bind (dport a) (\<lambda>default_p.
     exn_bind (input_or s3 default_p) (\<lambda>(p, s4).
     exn_bind (py_item a ''repo_owner'') (\<lambda>owner.
     let default_image =
           py_get a ''image'' (PStr (py_str owner @ ''/'' @ repo_name @ '':latest'')) in
     exn_bind (input_or s4 default_image) (\<lambda>(img, s5).
     exn_bind (input s5) (\<lambda>(l6, s6).
     let cfg = \<lparr> name = service_name, display_name = display, description = desc,
                 port = p, image_ref = img,
                 hostname = (if l6 \<noteq> [] then l6 else service_name),
                 needs_postgres = py_get a ''needs_postgres'' (PBool False),
                 needs_redis = py_get a ''needs_redis'' (PBool False) \<rparr> in
     exn_bind (input s6) (\<lambda>(confirm, s7).
     Inr (lower confirm = ''yes'', cfg, s7))))))))))))"

definition interactive_config ::
  "pydict \<Rightarrow> string list \<Rightarrow> exn + (bool \<times> service_config \<times> string list)" where
  "interactive_config = interactive_config_with default_desc desc_prompt default_port"

definition interactive_config_old ::
  "pydict \<Rightarrow> string list \<Rightarrow> exn + (bool \<times> service_config \<times> string list)" where
  "interactive_config_old =
     interactive_config_with default_desc_old desc_prompt_old default_port_old"

subsection \<open>Replacement templates of \<^verbatim>\<open>re.sub\<close>\<close>

definition bs :: char where
  "bs = CHR 0x5C"

definition dq :: char where
  "dq = CHR 0x22"

text \<open>
  \<^verbatim>\<open>re.sub\<close> parses its replacement string before it looks for a match (CPython's
  \<^verbatim>\<open>parse_template\<close>, as of version 3.12). The tokenizer pairs a backslash with the
  character after it and reads one token ahead; a backslash at the very end is an error
  raised when the token before it is taken.
\<close>

datatype tok = Ch char | Esc char | Bad_end

fun tokens :: "string \<Rightarrow> tok list" where
  "tokens [] = []"
| "tokens [c] = (if c = bs then [Bad_end] else [Ch c])"
| "tokens (c # d # ds) = (if c = bs then Esc d # tokens ds else Ch c # tokens (d # ds))"

fun bad_next :: "tok list \<Rightarrow> bool" where
  "bad_next (Bad_end # ts) = True"
| "bad_next ts = False"

text \<open>A part of a parsed template: a literal character or a group (0 is the whole match).\<close>

datatype titem = Lit char | Group nat

definition is_octal :: "char \<Rightarrow> bool" where
  "is_octal c = (c \<in> set ''01234567'')"

definition digit_val :: "char \<Rightarrow> nat" where
  "digit_val c = (of_char c :: nat) - 48"

definition is_identifier :: "string \<Rightarrow> bool" where
  "is_identifier s = (case s of [] \<Rightarrow> False | c # cs \<Rightarrow> is_word c \<and> \<not> is_digit c \<and> list_all is_word cs)"

text \<open>
  \<^verbatim>\<open>getuntil(">")\<close>: the text up to the closing bracket, with the number of tokens taken.
\<close>

fun getuntil :: "tok list \<Rightarrow> string \<Rightarrow> nat \<Rightarrow> exn + (string \<times> nat)" where
  "getuntil [] acc k = Inl ReError"
| "getuntil (t # ts) acc k =
     (if bad_next ts then Inl ReError
      else (case t of
              Ch c \<Rightarrow> (if c = CHR ''>'' then (if acc = [] then Inl ReError else Inr (acc, Suc k))
                       else getuntil ts (acc @ [c]) (Suc k))
            | Esc d \<Rightarrow> getuntil ts (acc @ [bs, d]) (Suc k)
            | Bad_end \<Rightarrow> Inl ReError))"

text \<open>
  A group reference to group \<open>i\<close> of a pattern with one group.
\<close>

definition addgroup :: "nat \<Rightarrow> nat \<Rightarrow> exn + (titem list \<times> nat)" where
  "addgroup i k = (if 1 < i then Inl ReError else Inr ([Group i], k))"

text \<open>
  The escape \<^verbatim>\<open>\c\<close> followed by the tokens \<open>ts\<close>: the parts it stands for and the number
  of tokens of \<open>ts\<close> it takes.
\<close>

definition escape :: "char \<Rightarrow> tok list \<Rightarrow> exn + (titem list \<times> nat)" where
  "escape c ts =
     (if c = CHR ''g'' then
        (case ts of
           Ch x # ts1 \<Rightarrow>
             (if x \<noteq> CHR ''<'' then Inl ReError
              else if bad_next ts1 then Inl ReError
              else exn_bind (getuntil ts1 [] 1) (\<lambda>(name, k).
                if list_all is_digit name
                then addgroup (foldl (\<lambda>n d. 10 * n + digit_val d) 0 name) k
                else if is_identifier name then Inl IndexError
                else Inl ReError))
         | _ \<Rightarrow> Inl ReError)
      else if c = CHR ''0'' then
        (case ts of
           Ch x # ts1 \<Rightarrow>
             (if is_octal x then
                (if bad_next ts1 then Inl ReError
                 else (case ts1 of
                         Ch y # ts2 \<Rightarrow>
                           (if is_octal y then
                              (if bad_next ts2 then Inl ReError
                               else Inr ([Lit (char_of (8 * digit_val x + digit_val y))], 2))
                            else Inr ([Lit (char_of (digit_val x))], 1))
                       | _ \<Rightarrow> Inr ([Lit (char_of (digit_val x))], 1)))
              else Inr ([Lit (char_of (0::nat))], 0))
         | _ \<Rightarrow> Inr ([Lit (char_of (0::nat))], 0))
      else if is_digit c then
        (case ts of
           Ch x # ts1 \<Rightarrow>
             (if is_digit x then
                (if bad_next ts1 then Inl ReError
                 else (case ts1 of
                         Ch y # ts2 \<Rightarrow>
                           (if is_octal c \<and> is_octal x \<and> is_octal y then
                              (if bad_next ts2 then Inl ReError
                               else if 255 < 64 * digit_val c + 8 * digit_val x + digit_val y
                               then Inl ReError
                               else Inr ([Lit (char_of (64 * digit_val c + 8 * digit_val x + digit_val y))], 2))
                            else addgroup (10 * digit_val c + digit_val x) 1)
                       | _ \<Rightarrow> addgroup (10 * digit_val c + digit_val x) 1))
              else addgroup (digit_val c) 0)
         | _ \<Rightarrow> addgroup (digit_val c) 0)
      else (case map_of [(CHR ''a'', CHR 0x07), (CHR ''b'', CHR 0x08), (CHR ''f'', CHR 0x0C),
                         (CHR ''n'', CHR 0x0A), (CHR ''r'', CHR 0x0D), (CHR ''t'', CHR 0x09),
                         (CHR ''v'', CHR 0x0B), (bs, bs)] c of
              Some e \<Rightarrow> Inr ([Lit e], 0)
            | None \<Rightarrow> (if is_lower c \<or> is_upper c then Inl ReError
                        else Inr ([Lit bs, Lit c], 0))))"

fun parse_template :: "tok list \<Rightarrow> exn + titem list" where
  "parse_template [] = Inr []"
| "parse_template (t # ts) =
     (if bad_next ts then Inl ReError
      else (case t of
              Ch c \<Rightarrow> exn_bind (parse_template ts) (\<lambda>items. Inr (Lit c # items))
            | Esc c \<Rightarrow> exn_bind (escape c ts) (\<lambda>(first, k).
                        exn_bind (parse_template (drop k ts)) (\<lambda>items. Inr (first @ items)))
            | Bad_end \<Rightarrow> Inl ReError))"

text \<open>The text a parsed template stands for at a match with the given group 1.\<close>

fun expand :: "titem list \<Rightarrow> string \<Rightarrow> string \<Rightarrow> string" where
  "expand [] whole g = []"
| "expand (Lit c # items) whole g = c # expand items whole g"
| "expand (Group i # items) whole g = (if i = 0 then whole else g) @ expand items whole g"

text \<open>
  \<^verbatim>\<open>re.sub(pattern, repl, content, count=1)\<close>: the leftmost match is replaced by the expanded
  template; without a match the content is returned as it is.
\<close>

fun sub_first :: "matcher \<Rightarrow> titem list \<Rightarrow> bool \<Rightarrow> string \<Rightarrow> string" where
  "sub_first m items bol [] =
     (case m bol [] of None \<Rightarrow> [] | Some (g, n) \<Rightarrow> expand items [] g)"
| "sub_first m items bol (c # cs) =
     (case m bol (c # cs) of
        None \<Rightarrow> c # sub_first m items (c = nl) cs
      | Some (g, n) \<Rightarrow> expand items (take n (c # cs)) g @ drop n (c # cs))"

definition re_sub1 :: "matcher \<Rightarrow> string \<Rightarrow> string \<Rightarrow> exn + string" where
  "re_sub1 m repl content =
     exn_bind (parse_template (tokens repl)) (\<lambda>items. Inr (sub_first m items True content))"

subsection \<open>The patterns of ServiceIntegrator\<close>

text \<open>A pattern that is one literal group, such as \<^verbatim>\<open>(volumes:\n)\<close>.\<close>

definition re_literal :: "string \<Rightarrow> matcher" where
  "re_literal pat bol s = (if starts_with pat s then Some (pat, length pat) else None)"

text \<open>
  A literal group followed by a newline outside the group, such as
  \<^verbatim>\<open>(\["OUTLINE_APP_SECRET"\]="hex:64")\n\<close>.
\<close>

definition re_literal_nl :: "string \<Rightarrow> matcher" where
  "re_literal_nl pat bol s =
     (if starts_with (pat @ [nl]) s then Some (pat, Suc (length pat)) else None)"

text \<open>
  A lazy \<^verbatim>\<open>.*?\<close> (no newline) followed by the literal \<open>pat\<close>: the shortest run of
  characters other than newline after which \<open>pat\<close> follows.
\<close>

fun lazy_dot :: "string \<Rightarrow> string \<Rightarrow> string option" where
  "lazy_dot pat [] = (if pat = [] then Some [] else None)"
| "lazy_dot pat (c # cs) =
     (if starts_with pat (c # cs) then Some []
      else if c = nl then None
      else map_option (Cons c) (lazy_dot pat cs))"

text \<open>\<^verbatim>\<open>("outline" ".*?")\n\<close> and \<^verbatim>\<open>("docmost" ".*?")\n\<close>, for the entry name \<open>e\<close>.\<close>

definition re_entry :: "string \<Rightarrow> matcher" where
  "re_entry e bol s =
     (let p = [dq] @ e @ [dq] @ '' '' @ [dq]
      in if starts_with p s
         then (case lazy_dot [dq, nl] (drop (length p) s) of
                 None \<Rightarrow> None
               | Some t \<Rightarrow> Some (p @ t @ [dq], length p + length t + 2))
         else None)"

text \<open>\<^verbatim>\<open>(\nbase_services_data=\([^)]+)\<close>\<close>

definition re_base_services :: matcher where
  "re_base_services bol s =
     (let p = [nl] @ ''base_services_data=(''; t = takeWhile (\<lambda>c. c \<noteq> CHR '')'') (drop (length p) s)
      in if starts_with p s \<and> t \<noteq> [] then Some (p @ t, length p + length t) else None)"

text \<open>
  \<^verbatim>\<open>.*?^fi\<close> with \<^verbatim>\<open>re.MULTILINE | re.DOTALL\<close>: the shortest run of characters up to
  an \<^verbatim>\<open>fi\<close> at the start of a line.
\<close>

fun lazy_to_fi :: "bool \<Rightarrow> string \<Rightarrow> string option" where
  "lazy_to_fi bol [] = None"
| "lazy_to_fi bol (c # cs) =
     (if bol \<and> starts_with ''fi'' (c # cs) then Some []
      else map_option (Cons c) (lazy_to_fi (c = nl) cs))"

text \<open>\<^verbatim>\<open>(if is_profile_active "outline"; then.*?^fi)\<close>, for the profile name \<open>e\<close>.\<close>

definition re_profile_block :: "string \<Rightarrow> matcher" where
  "re_profile_block e bol s =
     (let p = ''if is_profile_active '' @ [dq] @ e @ [dq] @ ''; then''
      in if starts_with p s
         then (case lazy_to_fi False (drop (length p) s) of
                 None \<Rightarrow> None
               | Some t \<Rightarrow> Some (p @ t @ ''fi'', length p + length t + 2))
         else None)"

subsection \<open>The target files\<close>

text \<open>
  What lies under the project root, by path relative to it: files with their stored text,
  and directories. The project root itself exists.
\<close>

datatype node = File string | Dir

type_synonym fs = "string \<rightharpoonup> node"

text \<open>The directory part of a path: what stands before its last slash.\<close>

definition dirname :: "string \<Rightarrow> string" where
  "dirname path = rev (drop 1 (dropWhile (\<lambda>c. c \<noteq> CHR ''/'') (rev path)))"

text \<open>The exception of opening a path at which there is nothing.\<close>

definition absent :: "string \<Rightarrow> fs \<Rightarrow> exn" where
  "absent path f =
     (case f (dirname path) of
        Some (File c) \<Rightarrow> (if dirname path = [] then FileNotFoundError else NotADirectoryError)
      | _ \<Rightarrow> FileNotFoundError)"

text \<open>
  \<^verbatim>\<open>with open(path, 'a') as f: f.write(block)\<close>: the block is added at the end of the
  file; a missing file is created when its directory exists.
\<close>

definition append_file :: "string \<Rightarrow> string \<Rightarrow> fs \<Rightarrow> exn + fs" where
  "append_file path block f =
     (case f path of
        Some (File c) \<Rightarrow> Inr (f(path \<mapsto> File (c @ block)))
      | Some Dir \<Rightarrow> Inl IsADirectoryError
      | None \<Rightarrow> (if dirname path = [] \<or> f (dirname path) = Some Dir
                 then Inr (f(path \<mapsto> File block))
                 else Inl (absent path f)))"

text \<open>\<^verbatim>\<open>with open(path, 'r') as f: content = f.read()\<close>\<close>

definition read_file :: "string \<Rightarrow> fs \<Rightarrow> exn + string" where
  "read_file path f =
     (case f path of
        Some (File c) \<Rightarrow> Inr (universal_newlines c)
      | Some Dir \<Rightarrow> Inl IsADirectoryError
      | None \<Rightarrow> Inl (absent path f))"

text \<open>
  A mutation returns the exception it raised, if any, with the files as it left them.
\<close>

type_synonym mutation = "fs \<Rightarrow> exn option \<times> fs"

definition append_mutation :: "string \<Rightarrow> string \<Rightarrow> mutation" where
  "append_mutation path block f =
     (case append_file path block f of Inl e \<Rightarrow> (Some e, f) | Inr f' \<Rightarrow> (None, f'))"

text \<open>
  Read the file, rewrite its content, write it back with
  \<^verbatim>\<open>with open(path, 'w') as f: f.write(content)\<close>: the pattern of the last three mutations.
\<close>

definition rewrite_file :: "string \<Rightarrow> (string \<Rightarrow> exn + string) \<Rightarrow> mutation" where
  "rewrite_file path edit f =
     (case read_file path f of
        Inl e \<Rightarrow> (Some e, f)
      | Inr content \<Rightarrow>
          (case edit content of
             Inl e \<Rightarrow> (Some e, f)
           | Inr content' \<Rightarrow> (None, f(path \<mapsto> File content'))))"

definition unlines :: "string list \<Rightarrow> string" where
  "unlines ls = concat (map (\<lambda>l. l @ [nl]) ls)"

subsection \<open>ServiceIntegrator: the mutations\<close>

definition service_block :: "service_config \<Rightarrow> string" where
  "service_block cfg =
     [nl] @ unlines
       [''  '' @ name cfg @ '':'',
        ''    image: '' @ py_str (image_ref cfg),
        ''    container_name: '' @ name cfg,
        ''    profiles: ['' @ [dq] @ name cfg @ [dq] @ '']'',
        ''    restart: unless-stopped'',
        ''    environment:'',
        ''      APP_URL: ${'' @ upper (name cfg) @ ''_HOSTNAME:+https://}${''
          @ upper (name cfg) @ ''_HOSTNAME}'']
     @ (if truthy (needs_postgres cfg) \<or> truthy (needs_redis cfg)
        then ''    depends_on:'' @ [nl]
             @ (if truthy (needs_postgres cfg)
                then ''      postgres:'' @ [nl] @ ''        condition: service_healthy'' @ [nl]
                else [])
             @ (if truthy (needs_redis cfg)
                then ''      redis:'' @ [nl] @ ''        condition: service_healthy'' @ [nl]
                else [])
        else [])"

definition volume_name :: "service_config \<Rightarrow> string" where
  "volume_name cfg = name cfg @ ''_data''"

text \<open>The anchor \<^verbatim>\<open>volumes:\n\<close> and the volume key line put after it.\<close>

definition volumes_anchor :: string where
  "volumes_anchor = ''volumes:'' @ [nl]"

definition volume_key :: "service_config \<Rightarrow> string" where
  "volume_key cfg = ''  '' @ volume_name cfg @ '':'' @ [nl]"

text \<open>
  \<^verbatim>\<open>add_to_docker_compose\<close>: the service block is appended to the file, then the file is
  read, \<^verbatim>\<open>re.sub(r'(volumes:\n)', f'\\1  {volume_name}:\n', content, count=1)\<close> puts the
  volume key after the first anchor, and the file is written. The two copies have the
  same text, but for the progress message.
\<close>

definition add_to_docker_compose :: "service_config \<Rightarrow> mutation" where
  "add_to_docker_compose cfg f =
     (case append_file ''docker-compose.yml'' (service_block cfg) f of
        Inl e \<Rightarrow> (Some e, f)
      | Inr f' \<Rightarrow>
          rewrite_file ''docker-compose.yml''
            (re_sub1 (re_literal volumes_anchor) ([bs, CHR ''1''] @ volume_key cfg)) f')"

definition add_to_docker_compose_old :: "service_config \<Rightarrow> mutation" where
  "add_to_docker_compose_old cfg f =
     (case append_file ''docker-compose.yml'' (service_block cfg) f of
        Inl e \<Rightarrow> (Some e, f)
      | Inr f' \<Rightarrow>
          rewrite_file ''docker-compose.yml''
            (re_sub1 (re_literal volumes_anchor) ([bs, CHR ''1''] @ volume_key cfg)) f')"

text \<open>
  \<^verbatim>\<open>add_to_env_example\<close>. The current copy writes \<^verbatim>\<open>Service configuration\<close> for an empty
  description; the older copy always writes the first 100 characters of the description.
\<close>

definition config_block :: "service_config \<Rightarrow> string \<Rightarrow> string" where
  "config_block cfg description_line =
     [nl] @ unlines
       [''############'',
        ''# '' @ py_str (display_name cfg) @ '' Configuration'',
        ''# '' @ description_line,
        ''############'',
        upper (name cfg) @ ''_HOSTNAME='' @ hostname cfg @ ''.yourdomain.com'',
        upper (name cfg) @ ''_APP_SECRET='']"

definition description_line :: "service_config \<Rightarrow> exn + string" where
  "description_line cfg =
     (if truthy (description cfg)
      then exn_bind (py_slice_to 100 (description cfg)) (\<lambda>d. Inr (py_str d))
      else Inr ''Service configuration'')"

definition description_line_old :: "service_config \<Rightarrow> exn + string" where
  "description_line_old cfg = exn_bind (py_slice_to 100 (description cfg)) (\<lambda>d. Inr (py_str d))"

definition add_to_env_example :: "service_config \<Rightarrow> mutation" where
  "add_to_env_example cfg f =
     (case description_line cfg of
        Inl e \<Rightarrow> (Some e, f)
      | Inr l \<Rightarrow> append_mutation ''.env.example'' (config_block cfg l) f)"

definition add_to_env_example_old :: "service_config \<Rightarrow> mutation" where
  "add_to_env_example_old cfg f =
     (case description_line_old cfg of
        Inl e \<Rightarrow> (Some e, f)
      | Inr l \<Rightarrow> append_mutation ''.env.example'' (config_block cfg l) f)"

text \<open>
  \<^verbatim>\<open>add_to_caddyfile\<close>. The current copy writes to \<^verbatim>\<open>config/caddy/Caddyfile\<close>, the older
  copy to \<^verbatim>\<open>Caddyfile\<close>.
\<close>

definition caddy_block :: "service_config \<Rightarrow> string" where
  "caddy_block cfg =
     [nl] @ unlines
       [''# '' @ py_str (display_name cfg),
        ''{'' @ upper (name cfg) @ ''_HOSTNAME} {'',
        ''    reverse_proxy '' @ name cfg @ '':'' @ py_str (port cfg),
        ''}'']"

definition add_to_caddyfile :: "service_config \<Rightarrow> mutation" where
  "add_to_caddyfile cfg = append_mutation ''config/caddy/Caddyfile'' (caddy_block cfg)"

definition add_to_caddyfile_old :: "service_config \<Rightarrow> mutation" where
  "add_to_caddyfile_old cfg = append_mutation ''Caddyfile'' (caddy_block cfg)"

text \<open>\<^verbatim>\<open>add_to_wizard\<close>\<close>

definition service_line :: "service_config \<Rightarrow> string" where
  "service_line cfg =
     ''    '' @ [dq] @ name cfg @ [dq] @ '' '' @ [dq] @ py_str (display_name cfg) @ [dq] @ [nl]"

definition wizard_edit :: "service_config \<Rightarrow> string \<Rightarrow> exn + string" where
  "wizard_edit cfg content =
     (if contains ([dq] @ ''outline'' @ [dq]) content
      then re_sub1 (re_entry ''outline'') ([bs, CHR ''1'', nl] @ service_line cfg) content
      else if contains ([dq] @ ''docmost'' @ [dq]) content
      then re_sub1 (re_entry ''docmost'') ([bs, CHR ''1'', nl] @ service_line cfg) content
      else re_sub1 re_base_services ([bs, CHR ''1'', nl] @ service_line cfg) content)"

definition add_to_wizard :: "service_config \<Rightarrow> mutation" where
  "add_to_wizard cfg = rewrite_file ''scripts/install/04_wizard.sh'' (wizard_edit cfg)"

text \<open>\<^verbatim>\<open>add_to_secrets\<close>\<close>

definition secret_line :: "service_config \<Rightarrow> string" where
  "secret_line cfg =
     ''    ['' @ [dq] @ upper (name cfg) @ ''_APP_SECRET'' @ [dq] @ '']='' @ [dq] @ ''hex:64'' @ [dq] @ [nl]"

definition secret_anchor :: "string \<Rightarrow> string" where
  "secret_anchor e = ''['' @ [dq] @ e @ [dq] @ '']='' @ [dq] @ ''hex:64'' @ [dq]"

definition secrets_edit :: "service_config \<Rightarrow> string \<Rightarrow> exn + string" where
  "secrets_edit cfg content =
     (if contains ''OUTLINE_APP_SECRET'' content
      then re_sub1 (re_literal_nl (secret_anchor ''OUTLINE_APP_SECRET''))
             ([bs, CHR ''1'', nl] @ secret_line cfg) content
      else if contains ''DOCMOST_APP_SECRET'' content
      then re_sub1 (re_literal_nl (secret_anchor ''DOCMOST_APP_SECRET''))
             ([bs, CHR ''1'', nl] @ secret_line cfg) content
      else re_sub1 (re_literal ([nl] @ '')'')) (secret_line cfg @ [bs, CHR ''1'']) content)"

definition add_to_secrets :: "service_config \<Rightarrow> mutation" where
  "add_to_secrets cfg = rewrite_file ''scripts/install/03_generate_secrets.sh'' (secrets_edit cfg)"

text \<open>\<^verbatim>\<open>add_to_final_report\<close>\<close>

definition report_block :: "service_config \<Rightarrow> string" where
  "report_block cfg =
     [nl] @ unlines
       [''if is_profile_active '' @ [dq] @ name cfg @ [dq] @ ''; then'',
        ''  echo'',
        ''  echo '' @ [dq] @ ''================================= '' @ py_str (display_name cfg)
          @ '' ============================'' @ [dq],
        ''  echo'',
        ''  echo '' @ [dq] @ ''Host: ${'' @ upper (name cfg) @ ''_HOSTNAME:-<hostname_not_set>}'' @ [dq],
        ''  echo '' @ [dq] @ ''Description: '' @ py_str (description cfg) @ [dq],
        ''  echo'',
        ''  echo '' @ [dq] @ ''First Time Setup:'' @ [dq],
        ''  echo '' @ [dq] @ ''  - Visit https://${'' @ upper (name cfg)
          @ ''_HOSTNAME:-<hostname_not_set>}'' @ [dq],
        ''  echo '' @ [dq] @ ''  - Create your admin account'' @ [dq],
        ''fi'']"

definition profile_test :: "string \<Rightarrow> string" where
  "profile_test e = ''is_profile_active '' @ [dq] @ e @ [dq]"

definition final_report_edit :: "service_config \<Rightarrow> string \<Rightarrow> exn + string" where
  "final_report_edit cfg content =
     (if contains (profile_test ''outline'') content
      then re_sub1 (re_profile_block ''outline'') ([bs, CHR ''1'', nl] @ report_block cfg) content
      else if contains (profile_test ''docmost'') content
      then re_sub1 (re_profile_block ''docmost'') ([bs, CHR ''1'', nl] @ report_block cfg) content
      else if contains (profile_test ''paddleocr'') content
      then re_sub1 (re_literal (''if '' @ profile_test ''paddleocr''))
             (report_block cfg @ [nl, bs, CHR ''1'']) content
      else if contains (profile_test ''python-runner'') content
      then re_sub1 (re_literal (''if '' @ profile_test ''python-runner''))
             (report_block cfg @ [nl, bs, CHR ''1'']) content
      else Inr content)"

definition add_to_final_report :: "service_config \<Rightarrow> mutation" where
  "add_to_final_report cfg = rewrite_file ''scripts/install/07_final_report.sh'' (final_report_edit cfg)"

text \<open>\<^verbatim>\<open>integrate\<close>: the mutations in their fixed order, up to the first that raises.\<close>

fun run_mutations :: "mutation list \<Rightarrow> mutation" where
  "run_mutations [] f = (None, f)"
| "run_mutations (m # ms) f =
     (case m f of (None, f') \<Rightarrow> run_mutations ms f' | (Some e, f') \<Rightarrow> (Some e, f'))"

definition integrate :: "service_config \<Rightarrow> mutation" where
  "integrate cfg =
     run_mutations [add_to_docker_compose cfg, add_to_env_example cfg, add_to_caddyfile cfg,
                    add_to_wizard cfg, add_to_secrets cfg, add_to_final_report cfg]"

definition integrate_old :: "service_config \<Rightarrow> mutation" where
  "integrate_old cfg =
     run_mutations [add_to_docker_compose_old cfg, add_to_env_example_old cfg,
                    add_to_caddyfile_old cfg]"

subsection \<open>main\<close>

text \<open>
  The state \<^verbatim>\<open>main\<close> acts on: whether the temporary workspace directory exists on disk,
  whether \<^verbatim>\<open>analyzer.temp_dir\<close> is set, and the files under the project root. The
  outcome of a run is the exit code \<^verbatim>\<open>main\<close> returns or the exception that leaves it.
\<close>

record world =
  workspace :: bool
  temp_dir :: bool
  project :: fs

text \<open>
  \<^verbatim>\<open>clone_repo\<close>: \<^verbatim>\<open>tempfile.mkdtemp()\<close> creates the workspace directory and
  \<^verbatim>\<open>self.temp_dir\<close> records it; then \<^verbatim>\<open>git clone\<close> runs with \<^verbatim>\<open>check=True\<close>. The fetch
  is given as \<open>Some\<close> of the cloned repository, or \<open>None\<close> when git exits non-zero.
\<close>

definition clone_repo :: "repo option \<Rightarrow> world \<Rightarrow> (exn + repo) \<times> world" where
  "clone_repo fetch w =
     (let w' = w\<lparr>workspace := True, temp_dir := True\<rparr>
      in case fetch of None \<Rightarrow> (Inl CalledProcessError, w') | Some r \<Rightarrow> (Inr r, w'))"

definition run_analysis ::
  "string \<Rightarrow> string \<Rightarrow> string \<Rightarrow> repo option \<Rightarrow> world \<Rightarrow> (exn + pydict) \<times> world" where
  "run_analysis repo_name repo_owner github_url fetch w =
     (case clone_repo fetch w of
        (Inl e, w') \<Rightarrow> (Inl e, w')
      | (Inr r, w') \<Rightarrow> (merge_analysis repo_name repo_owner github_url r, w'))"

text \<open>
  \<^verbatim>\<open>cleanup\<close>: \<^verbatim>\<open>if self.temp_dir and self.temp_dir.exists(): shutil.rmtree(self.temp_dir)\<close>
\<close>

definition cleanup :: "world \<Rightarrow> world" where
  "cleanup w = (if temp_dir w \<and> workspace w then w\<lparr>workspace := False\<rparr> else w)"

text \<open>
  The body of the \<^verbatim>\<open>try\<close> statement of \<^verbatim>\<open>main\<close>, for an analyzer with the given
  repository name and owner.
\<close>

definition main_try ::
  "string \<Rightarrow> string \<Rightarrow> string \<Rightarrow> repo option \<Rightarrow> string list \<Rightarrow> world \<Rightarrow> (exn + nat) \<times> world" where
  "main_try repo_name repo_owner github_url fetch stdin w =
     (case run_analysis repo_name repo_owner github_url fetch w of
        (Inl e, w1) \<Rightarrow> (Inl e, w1)
      | (Inr analysis, w1) \<Rightarrow>
          (if \<not> truthy (py_get analysis ''has_docker_compose'' PNone)
              \<and> \<not> truthy (py_get analysis ''has_dockerfile'' PNone)
           then (Inr 1, w1)
           else (case interactive_config analysis stdin of
                   Inl e \<Rightarrow> (Inl e, w1)
                 | Inr (proceed, cfg, rest) \<Rightarrow>
                     (if proceed
                      then (case integrate cfg (project w1) of
                              (Some e, f) \<Rightarrow> (Inl e, w1\<lparr>project := f\<rparr>)
                            | (None, f) \<Rightarrow> (Inr 0, w1\<lparr>project := f\<rparr>))
                      else (Inr 1, w1)))))"

text \<open>
  \<^verbatim>\<open>main\<close>: the analyzer is constructed (its owner is \<^verbatim>\<open>github_url.split('/')[-2]\<close>, which
  raises before the \<^verbatim>\<open>try\<close> statement is entered), then the \<^verbatim>\<open>try\<close> body runs and
  \<^verbatim>\<open>finally\<close> calls \<^verbatim>\<open>cleanup\<close>.
\<close>

definition main :: "string \<Rightarrow> repo option \<Rightarrow> string list \<Rightarrow> world \<Rightarrow> (exn + nat) \<times> world" where
  "main github_url fetch stdin w =
     (case url_owner github_url of
        Inl e \<Rightarrow> (Inl e, w)
      | Inr repo_owner \<Rightarrow>
          (case main_try (path_stem github_url) repo_owner github_url fetch stdin w of
             (result, w') \<Rightarrow> (result, cleanup w')))"

subsection \<open>Counting occurrences\<close>

text \<open>The number of positions of \<open>s\<close> at which \<open>pat\<close> occurs.\<close>

fun occurrences :: "string \<Rightarrow> string \<Rightarrow> nat" where
  "occurrences pat [] = (if pat = [] then 1 else 0)"
| "occurrences pat (c # cs) = (if starts_with pat (c # cs) then 1 else 0) + occurrences pat cs"

text \<open>No occurrence of \<open>pat\<close> in \<open>pre @ pat\<close> starts inside \<open>pre\<close>.\<close>

definition first_at :: "string \<Rightarrow> string \<Rightarrow> bool" where
  "first_at pat pre = (\<forall>i<length pre. \<not> starts_with pat (drop i (pre @ pat)))"

subsection \<open>An example descriptor\<close>

definition demo_config :: service_config where
  "demo_config =
     \<lparr>name = ''svc'', display_name = PStr ''Svc'', description = PStr ''A service'',
      port = PStr ''3000'', image_ref = PStr ''me/svc:latest'', hostname = ''svc'',
      needs_postgres = PBool False, needs_redis = PBool False\<rparr>"

text \<open>The opening marker of the wizard's data block, as the fallback pattern reads it.\<close>

definition base_marker :: string where
  "base_marker = [nl] @ ''base_services_data=(''"

text \<open>A wizard script with one entry in its data block and none of the two anchors.\<close>

definition demo_wizard :: string where
  "demo_wizard =
     ''#!/bin/bash'' @ base_marker @ [nl]
     @ ''    '' @ [dq] @ ''n8n'' @ [dq] @ '' '' @ [dq] @ ''n8n'' @ [dq] @ [nl]
     @ '')'' @ [nl]"

subsection \<open>An example repository\<close>

text \<open>A repository with a Dockerfile, a compose manifest, a README and a package manifest.\<close>

definition demo_repo :: repo where
  "demo_repo =
     \<lparr>files = [''Dockerfile'' \<mapsto> ''ENV API_KEY'', ''docker-compose.yml'' \<mapsto> ''services:'',
               ''README.md'' \<mapsto> ''# Demo'', ''package.json'' \<mapsto> ''{}''],
      package_json = Json_object Map.empty\<rparr>"

section \<open>Properties\<close>

lemma name_char_iff:
  "name_char c = (c \<in> set ''abcdefghijklmnopqrstuvwxyz0123456789-'')"
  by (auto simp: name_char_def is_lower_def is_digit_def lower_chars_def digit_chars_def)

text \<open>
  Claim C7. The service-name normalisation is a total function on strings; every
  character of its output is a lowercase letter, a digit or a hyphen; and it is
  idempotent.
\<close>

theorem normalize_name_idempotent:
  "set (normalize_name s) \<subseteq> set ''abcdefghijklmnopqrstuvwxyz0123456789-''
   \<and> normalize_name (normalize_name s) = normalize_name s"
proof
  show "set (normalize_name s) \<subseteq> set ''abcdefghijklmnopqrstuvwxyz0123456789-''"
    unfolding normalize_name_def using name_char_iff by auto
  show "normalize_name (normalize_name s) = normalize_name s"
    by (simp add: normalize_name_def)
qed

lemmas interactive_defs =
  interactive_config_old_def interactive_config_def interactive_config_with_def exn_bind_def
  py_str_item_def py_item_def py_get_def input_or_def py_or_def
  default_port_old_def default_port_def
  default_desc_old_def desc_prompt_old_def default_desc_def desc_prompt_def Let_def

lemma lower_yes: "lower ''yes'' = ''yes''"
  by (simp add: lower_def to_lower_def upper_chars_def lower_chars_def)

lemma default_port_fallback:
  "a ''ports'' = None \<or> a ''ports'' = Some (PList []) \<Longrightarrow> default_port a = Inr (PStr ''3000'')"
  by (auto simp: default_port_def py_get_def)

text \<open>
  Claim C4. With an empty \<^verbatim>\<open>ports\<close> list (a compose manifest without port entries) the
  older copy raises \<^verbatim>\<open>IndexError\<close> while computing the port default, where the claim
  promises the default \<^verbatim>\<open>3000\<close>; the current copy falls back (\<open>default_port_fallback\<close>).
\<close>

theorem interactive_config_old_empty_ports:
  "interactive_config_old
        [''repo_name'' \<mapsto> PStr ''svc'', ''repo_owner'' \<mapsto> PStr ''me'', ''ports'' \<mapsto> PList []]
        ['''', '''', '''', '''', '''', '''', ''yes''] = Inl IndexError"
  by (simp add: interactive_defs)

lemma dom_analyze_dockerfile:
  "dom (analyze_dockerfile r) =
     (if files r ''Dockerfile'' = None then {} else {''has_dockerfile'', ''exposed_ports'', ''env_vars''})"
  by (auto simp: analyze_dockerfile_def Let_def split: option.splits if_splits)

lemma dom_analyze_docker_compose:
  "dom (analyze_docker_compose r) =
     (if first_existing (files r) [''docker-compose.yml'', ''docker-compose.yaml''] = None then {}
      else {''has_docker_compose'', ''compose_file'', ''services'', ''image'', ''ports'',
            ''env_vars'', ''needs_postgres'', ''needs_redis'', ''needs_mysql''})"
  unfolding analyze_docker_compose_def Let_def
  by (cases "first_existing (files r) [''docker-compose.yml'', ''docker-compose.yaml'']")
     (auto split: if_splits)

lemma dom_analyze_readme:
  "dom (analyze_readme n r) =
     (if first_existing (files r) [''README.md'', ''readme.md'', ''README'', ''README.txt''] = None then {}
      else {''title'', ''description'', ''has_docker_section'', ''documented_env_vars''})"
  unfolding analyze_readme_def Let_def
  by (cases "first_existing (files r) [''README.md'', ''readme.md'', ''README'', ''README.txt'']")
     (auto split: if_splits)

lemma dom_analyze_package_json:
  "analyze_package_json r = Inr p \<Longrightarrow>
   dom p = (if files r ''package.json'' = None then {} else {''name'', ''description'', ''version'', ''is_nodejs''})"
  by (auto simp: analyze_package_json_def split: option.splits json_doc.splits if_splits)

lemma universal_newlines_id: "cr \<notin> set s \<Longrightarrow> universal_newlines s = s"
  by (induction s rule: universal_newlines.induct) auto

lemma findall_expose_5000: "findall re_expose (universal_newlines ''EXPOSE 5000'') = [''5000'']"
  by (simp add: universal_newlines_id cr_def findall_def re_expose_def is_space_def is_digit_def
      digit_chars_def nl_def Let_def del: universal_newlines.simps)

text \<open>
  \<^verbatim>\<open>interactive_config\<close> never reads \<^verbatim>\<open>exposed_ports\<close>: whatever value the key has, the
  result is the same.
\<close>

lemma interactive_config_ignores_exposed_ports:
  "interactive_config (a(''exposed_ports'' \<mapsto> v)) stdin = interactive_config a stdin"
  by (simp add: interactive_config_def interactive_config_with_def py_str_item_def py_item_def
      py_get_def default_desc_def default_port_def)

text \<open>
  Claim C6. A repository that holds only a Dockerfile, whatever its text \<open>d\<close> (with
  \<^verbatim>\<open>EXPOSE 5000\<close> the analysis records the exposed port 5000): the analysis succeeds and
  records the ports the Dockerfile exposes, and \<^verbatim>\<open>interactive_config\<close>, with every prompt
  answered by the empty line and the confirmation by \<^verbatim>\<open>yes\<close>, accepts and yields a
  descriptor whose port is \<^verbatim>\<open>'3000'\<close> and whose \<^verbatim>\<open>needs_postgres\<close> is \<^verbatim>\<open>False\<close>. The
  exposed ports are never consulted: with any other value under \<^verbatim>\<open>exposed_ports\<close> the
  result of \<^verbatim>\<open>interactive_config\<close> is the same, for every sequence of responses.
\<close>

theorem dockerfile_only_defaults:
  "\<exists>a cfg.
     merge_analysis n ow u \<lparr>files = [''Dockerfile'' \<mapsto> d], package_json = pj\<rparr> = Inr a
     \<and> a ''exposed_ports'' = Some (PList (findall re_expose (universal_newlines d)))
     \<and> findall re_expose (universal_newlines ''EXPOSE 5000'') = [''5000'']
     \<and> interactive_config a ['''', '''', '''', '''', '''', '''', ''yes''] = Inr (True, cfg, [])
     \<and> port cfg = PStr ''3000''
     \<and> needs_postgres cfg = PBool False
     \<and> (\<forall>v stdin. interactive_config (a(''exposed_ports'' \<mapsto> v)) stdin = interactive_config a stdin)"
proof -
  define a where "a = [''repo_name'' \<mapsto> PStr n, ''repo_owner'' \<mapsto> PStr ow, ''github_url'' \<mapsto> PStr u]
      ++ [''has_dockerfile'' \<mapsto> PBool True,
          ''exposed_ports'' \<mapsto> PList (findall re_expose (universal_newlines d)),
          ''env_vars'' \<mapsto> PList (findall re_env (universal_newlines d))]"
  define cfg where "cfg =
     \<lparr>name = normalize_name (remove_char CHR ''_'' (remove_char CHR ''-'' (lower n))),
      display_name = PStr n, description = PStr [], port = PStr ''3000'',
      image_ref = PStr (ow @ ''/'' @ n @ '':latest''),
      hostname = normalize_name (remove_char CHR ''_'' (remove_char CHR ''-'' (lower n))),
      needs_postgres = PBool False, needs_redis = PBool False\<rparr>"
  have m: "merge_analysis n ow u \<lparr>files = [''Dockerfile'' \<mapsto> d], package_json = pj\<rparr> = Inr a"
    by (simp add: merge_analysis_def analyze_package_json_def analyze_dockerfile_def
        analyze_docker_compose_def analyze_readme_def exn_bind_def a_def Let_def)
  have look: "a ''repo_name'' = Some (PStr n)" "a ''repo_owner'' = Some (PStr ow)"
    "a ''title'' = None" "a ''description'' = None" "a ''ports'' = None" "a ''image'' = None"
    "a ''needs_postgres'' = None" "a ''needs_redis'' = None"
    "a ''exposed_ports'' = Some (PList (findall re_expose (universal_newlines d)))"
    by (simp_all add: a_def map_add_def)
  have ic: "interactive_config a ['''', '''', '''', '''', '''', '''', ''yes''] = Inr (True, cfg, [])"
    by (simp add: interactive_defs lower_yes look cfg_def)
  have p: "port cfg = PStr ''3000''" "needs_postgres cfg = PBool False"
    by (simp_all add: cfg_def)
  have ign: "\<forall>v stdin. interactive_config (a(''exposed_ports'' \<mapsto> v)) stdin = interactive_config a stdin"
    by (intro allI) (rule interactive_config_ignores_exposed_ports)
  show ?thesis
    by (intro exI [of _ a] exI [of _ cfg] conjI) (rule m look(9) findall_expose_5000 ic p ign)+
qed

text \<open>
  Claim C1, as stated, fails: on the example repository both \<^verbatim>\<open>analyze_dockerfile\<close> and
  \<^verbatim>\<open>analyze_docker_compose\<close> produce the key \<^verbatim>\<open>env_vars\<close>, and in the merged analysis the
  Dockerfile's value \<^verbatim>\<open>['API_KEY']\<close> is replaced by the compose manifest's \<^verbatim>\<open>[]\<close>.
\<close>

theorem inspectors_share_env_vars:
  "analyze_dockerfile demo_repo ''env_vars'' = Some (PList [''API_KEY''])
   \<and> analyze_docker_compose demo_repo ''env_vars'' = Some (PList [])
   \<and> map_sum id (\<lambda>a. a ''env_vars'')
        (merge_analysis ''svc'' ''me'' ''https://github.com/me/svc'' demo_repo) = Inr (Some (PList []))
   \<and> dom (analyze_dockerfile demo_repo) \<inter> dom (analyze_docker_compose demo_repo) \<noteq> {}"
  by (simp add: demo_repo_def analyze_dockerfile_def analyze_docker_compose_def analyze_readme_def
      analyze_package_json_def merge_analysis_def exn_bind_def
      findall_def search_def re_env_def re_expose_def re_environment_def re_title_def re_paragraph_def
      re_env_heading_def space_then_line_def is_space_def
      is_upper_snake_def is_upper_def upper_chars_def nl_def Let_def map_add_def
      universal_newlines_id cr_def del: universal_newlines.simps)

lemma merge_keeps:
  assumes m: "merge_analysis n ow u r = Inr a"
  shows "k \<noteq> ''env_vars'' \<Longrightarrow> analyze_dockerfile r k = Some v \<Longrightarrow> a k = Some v"
    and "analyze_docker_compose r k = Some v \<Longrightarrow> a k = Some v"
    and "k \<noteq> ''description'' \<Longrightarrow> analyze_readme n r k = Some v \<Longrightarrow> a k = Some v"
    and "analyze_package_json r = Inr p \<Longrightarrow> p k = Some v \<Longrightarrow> a k = Some v"
proof -
  obtain q where q: "analyze_package_json r = Inr q"
    and a: "a = [''repo_name'' \<mapsto> PStr n, ''repo_owner'' \<mapsto> PStr ow, ''github_url'' \<mapsto> PStr u]
            ++ analyze_dockerfile r ++ analyze_docker_compose r ++ analyze_readme n r ++ q"
    using m by (auto simp: merge_analysis_def exn_bind_def split: sum.splits)
  note doms = dom_analyze_dockerfile [of r] dom_analyze_docker_compose [of r]
    dom_analyze_readme [of n r] dom_analyze_package_json [OF q]
  show "a k = Some v" if "k \<noteq> ''env_vars''" "analyze_dockerfile r k = Some v"
  proof -
    have "k \<in> dom (analyze_dockerfile r)" using that by blast
    then have "k \<notin> dom (analyze_docker_compose r)" "k \<notin> dom (analyze_readme n r)" "k \<notin> dom q"
      using that(1) doms by (auto split: if_splits)
    then show ?thesis using that(2) by (simp add: a map_add_Some_iff domIff)
  qed
  show "a k = Some v" if "analyze_docker_compose r k = Some v"
  proof -
    have "k \<in> dom (analyze_docker_compose r)" using that by blast
    then have "k \<notin> dom (analyze_readme n r)" "k \<notin> dom q"
      using doms by (auto split: if_splits)
    then show ?thesis using that by (simp add: a map_add_Some_iff domIff)
  qed
  show "a k = Some v" if "k \<noteq> ''description''" "analyze_readme n r k = Some v"
  proof -
    have "k \<in> dom (analyze_readme n r)" using that by blast
    then have "k \<notin> dom q"
      using that(1) doms by (auto split: if_splits)
    then show ?thesis using that(2) by (simp add: a map_add_Some_iff domIff)
  qed
  show "a k = Some v" if "analyze_package_json r = Inr p" "p k = Some v"
    using that q by (simp add: a map_add_Some_iff)
qed

lemma keys_disjoint:
  "{''has_dockerfile'', ''exposed_ports'', ''env_vars''} \<inter>
   {''has_docker_compose'', ''compose_file'', ''services'', ''image'', ''ports'',
    ''env_vars'', ''needs_postgres'', ''needs_redis'', ''needs_mysql''} = {''env_vars''}"
  "{''has_dockerfile'', ''exposed_ports'', ''env_vars''} \<inter>
   {''title'', ''description'', ''has_docker_section'', ''documented_env_vars''} = {}"
  "{''has_docker_compose'', ''compose_file'', ''services'', ''image'', ''ports'',
    ''env_vars'', ''needs_postgres'', ''needs_redis'', ''needs_mysql''} \<inter>
   {''title'', ''description'', ''has_docker_section'', ''documented_env_vars''} = {}"
  "{''has_dockerfile'', ''exposed_ports'', ''env_vars''} \<inter>
   {''name'', ''description'', ''version'', ''is_nodejs''} = {}"
  "{''has_docker_compose'', ''compose_file'', ''services'', ''image'', ''ports'',
    ''env_vars'', ''needs_postgres'', ''needs_redis'', ''needs_mysql''} \<inter>
   {''name'', ''description'', ''version'', ''is_nodejs''} = {}"
  "{''title'', ''description'', ''has_docker_section'', ''documented_env_vars''} \<inter>
   {''name'', ''description'', ''version'', ''is_nodejs''} = {''description''}"
  by simp_all

lemmas key_simps = keys_disjoint Int_empty_left Int_empty_right subset_refl empty_subsetI
  if_True if_False simp_thms

text \<open>
  Claim C1, amended. The key sets of the four inspectors are pairwise disjoint except
  for \<^verbatim>\<open>env_vars\<close> (Dockerfile and compose inspectors) and \<^verbatim>\<open>description\<close> (README and
  package inspectors). In the merged analysis every other key keeps the value of the
  inspector that produced it; for the two shared keys the later inspector's value stands.
\<close>

theorem inspector_keys:
  "dom (analyze_dockerfile r) \<inter> dom (analyze_docker_compose r) \<subseteq> {''env_vars''}
   \<and> dom (analyze_dockerfile r) \<inter> dom (analyze_readme n r) = {}
   \<and> dom (analyze_docker_compose r) \<inter> dom (analyze_readme n r) = {}
   \<and> (analyze_package_json r = Inr p \<longrightarrow>
        dom (analyze_dockerfile r) \<inter> dom p = {}
        \<and> dom (analyze_docker_compose r) \<inter> dom p = {}
        \<and> dom (analyze_readme n r) \<inter> dom p \<subseteq> {''description''})
   \<and> (merge_analysis n ow u r = Inr a \<longrightarrow>
        (\<forall>k v. k \<noteq> ''env_vars'' \<longrightarrow> analyze_dockerfile r k = Some v \<longrightarrow> a k = Some v)
        \<and> (\<forall>k v. analyze_docker_compose r k = Some v \<longrightarrow> a k = Some v)
        \<and> (\<forall>k v. k \<noteq> ''description'' \<longrightarrow> analyze_readme n r k = Some v \<longrightarrow> a k = Some v)
        \<and> (\<forall>k v. analyze_package_json r = Inr p \<longrightarrow> p k = Some v \<longrightarrow> a k = Some v))"
proof -
  let ?D = "files r ''Dockerfile'' = None"
  let ?C = "first_existing (files r) [''docker-compose.yml'', ''docker-compose.yaml''] = None"
  let ?R = "first_existing (files r) [''README.md'', ''readme.md'', ''README'', ''README.txt''] = None"
  let ?P = "files r ''package.json'' = None"
  have 1: "dom (analyze_dockerfile r) \<inter> dom (analyze_docker_compose r) \<subseteq> {''env_vars''}"
    unfolding dom_analyze_dockerfile dom_analyze_docker_compose
    by (cases ?D; cases ?C; simp only: key_simps)
  have 2: "dom (analyze_dockerfile r) \<inter> dom (analyze_readme n r) = {}"
    unfolding dom_analyze_dockerfile dom_analyze_readme
    by (cases ?D; cases ?R; simp only: key_simps)
  have 3: "dom (analyze_docker_compose r) \<inter> dom (analyze_readme n r) = {}"
    unfolding dom_analyze_docker_compose dom_analyze_readme
    by (cases ?C; cases ?R; simp only: key_simps)
  have 4: "analyze_package_json r = Inr p \<longrightarrow>
        dom (analyze_dockerfile r) \<inter> dom p = {}
        \<and> dom (analyze_docker_compose r) \<inter> dom p = {}
        \<and> dom (analyze_readme n r) \<inter> dom p \<subseteq> {''description''}"
  proof (rule impI)
    assume q: "analyze_package_json r = Inr p"
    note dp = dom_analyze_package_json [OF q]
    have a: "dom (analyze_dockerfile r) \<inter> dom p = {}"
      unfolding dom_analyze_dockerfile dp by (cases ?D; cases ?P; simp only: key_simps)
    have b: "dom (analyze_docker_compose r) \<inter> dom p = {}"
      unfolding dom_analyze_docker_compose dp by (cases ?C; cases ?P; simp only: key_simps)
    have c: "dom (analyze_readme n r) \<inter> dom p \<subseteq> {''description''}"
      unfolding dom_analyze_readme dp by (cases ?R; cases ?P; simp only: key_simps)
    show "dom (analyze_dockerfile r) \<inter> dom p = {}
        \<and> dom (analyze_docker_compose r) \<inter> dom p = {}
        \<and> dom (analyze_readme n r) \<inter> dom p \<subseteq> {''description''}"
      by (rule conjI [OF a conjI [OF b c]])
  qed
  have 5: "merge_analysis n ow u r = Inr a \<longrightarrow>
        (\<forall>k v. k \<noteq> ''env_vars'' \<longrightarrow> analyze_dockerfile r k = Some v \<longrightarrow> a k = Some v)
        \<and> (\<forall>k v. analyze_docker_compose r k = Some v \<longrightarrow> a k = Some v)
        \<and> (\<forall>k v. k \<noteq> ''description'' \<longrightarrow> analyze_readme n r k = Some v \<longrightarrow> a k = Some v)
        \<and> (\<forall>k v. analyze_package_json r = Inr p \<longrightarrow> p k = Some v \<longrightarrow> a k = Some v)"
  proof (intro impI conjI allI)
    fix k v
    assume m: "merge_analysis n ow u r = Inr a"
    show "a k = Some v" if "k \<noteq> ''env_vars''" "analyze_dockerfile r k = Some v"
      using that by (rule merge_keeps(1) [OF m])
    show "a k = Some v" if "analyze_docker_compose r k = Some v"
      using that by (rule merge_keeps(2) [OF m])
    show "a k = Some v" if "k \<noteq> ''description''" "analyze_readme n r k = Some v"
      using that by (rule merge_keeps(3) [OF m])
    show "a k = Some v" if "analyze_package_json r = Inr p" "p k = Some v"
      using that by (rule merge_keeps(4) [OF m])
  qed
  show ?thesis
    by (rule conjI [OF 1 conjI [OF 2 conjI [OF 3 conjI [OF 4 5]]]])
qed

theorem inspector_keys_witness:
  "analyze_package_json demo_repo = Inr (Map.empty(''name'' \<mapsto> PNone, ''description'' \<mapsto> PNone,
       ''version'' \<mapsto> PNone, ''is_nodejs'' \<mapsto> PBool True))
   \<and> dom (analyze_readme ''svc'' demo_repo)
       \<inter> dom (Map.empty(''name'' \<mapsto> PNone, ''description'' \<mapsto> PNone,
              ''version'' \<mapsto> PNone, ''is_nodejs'' \<mapsto> PBool True)) \<subseteq> {''description''}
   \<and> dom (analyze_dockerfile demo_repo) \<inter> dom (analyze_docker_compose demo_repo) \<subseteq> {''env_vars''}
   \<and> merge_analysis ''svc'' ''me'' ''https://github.com/me/svc'' demo_repo =
       Inr ([''repo_name'' \<mapsto> PStr ''svc'', ''repo_owner'' \<mapsto> PStr ''me'',
             ''github_url'' \<mapsto> PStr ''https://github.com/me/svc'']
            ++ analyze_dockerfile demo_repo ++ analyze_docker_compose demo_repo
            ++ analyze_readme ''svc'' demo_repo
            ++ Map.empty(''name'' \<mapsto> PNone, ''description'' \<mapsto> PNone,
                 ''version'' \<mapsto> PNone, ''is_nodejs'' \<mapsto> PBool True))
   \<and> analyze_dockerfile demo_repo ''has_dockerfile'' = Some (PBool True)
   \<and> ([''repo_name'' \<mapsto> PStr ''svc'', ''repo_owner'' \<mapsto> PStr ''me'',
             ''github_url'' \<mapsto> PStr ''https://github.com/me/svc'']
            ++ analyze_dockerfile demo_repo ++ analyze_docker_compose demo_repo
            ++ analyze_readme ''svc'' demo_repo
            ++ Map.empty(''name'' \<mapsto> PNone, ''description'' \<mapsto> PNone,
                 ''version'' \<mapsto> PNone, ''is_nodejs'' \<mapsto> PBool True)) ''has_dockerfile''
       = Some (PBool True)"
proof -
  let ?p = "Map.empty(''name'' \<mapsto> PNone, ''description'' \<mapsto> PNone,
       ''version'' \<mapsto> PNone, ''is_nodejs'' \<mapsto> PBool True)"
  let ?a = "[''repo_name'' \<mapsto> PStr ''svc'', ''repo_owner'' \<mapsto> PStr ''me'',
             ''github_url'' \<mapsto> PStr ''https://github.com/me/svc'']
            ++ analyze_dockerfile demo_repo ++ analyze_docker_compose demo_repo
            ++ analyze_readme ''svc'' demo_repo ++ ?p"
  have p: "analyze_package_json demo_repo = Inr ?p"
    by (simp add: demo_repo_def analyze_package_json_def py_get_def)
  have m: "merge_analysis ''svc'' ''me'' ''https://github.com/me/svc'' demo_repo = Inr ?a"
    by (simp add: merge_analysis_def p exn_bind_def)
  have d: "analyze_dockerfile demo_repo ''has_dockerfile'' = Some (PBool True)"
    by (simp add: demo_repo_def analyze_dockerfile_def Let_def)
  note k = inspector_keys [where r = demo_repo and n = "''svc''" and ow = "''me''"
      and u = "''https://github.com/me/svc''" and p = ?p and a = ?a]
  note k1 = k [THEN conjunct1]
  note k4 = k [THEN conjunct2, THEN conjunct2, THEN conjunct2, THEN conjunct1, THEN mp, OF p]
  note k5 = k [THEN conjunct2, THEN conjunct2, THEN conjunct2, THEN conjunct2, THEN mp, OF m]
  note keep = k5 [THEN conjunct1, THEN spec, THEN spec, THEN mp, THEN mp]
  have e: "?a ''has_dockerfile'' = Some (PBool True)"
    by (rule keep [OF _ d]) simp
  show ?thesis
    by (intro conjI) (rule p, rule k4 [THEN conjunct2, THEN conjunct2], rule k1, rule m, rule d, rule e)
qed

lemma main_try_workspace:
  "workspace (snd (main_try n ow u fetch stdin w)) \<and> temp_dir (snd (main_try n ow u fetch stdin w))"
  by (auto simp: main_try_def run_analysis_def clone_repo_def Let_def
      split: option.splits sum.splits prod.splits if_splits)

lemma url_owner_demo: "url_owner ''https://github.com/me/svc'' = Inr ''me''"
  by (simp add: url_owner_def Let_def)

lemma path_stem_demo: "path_stem ''https://github.com/me/svc'' = ''svc''"
  by (simp add: path_stem_def path_name_def Let_def)

text \<open>
  Claim C9. Whatever the fetch, the analysis, the user's responses and the mutations do,
  the \<^verbatim>\<open>try\<close> body of \<^verbatim>\<open>main\<close> ends (by a return or by an exception) with the workspace
  directory created by \<^verbatim>\<open>clone_repo\<close> in place, \<^verbatim>\<open>main\<close> then runs \<^verbatim>\<open>cleanup\<close>, and the
  directory is gone when \<^verbatim>\<open>main\<close> is left. (\<^verbatim>\<open>shutil.rmtree\<close> is taken to succeed.)
\<close>

theorem main_removes_workspace:
  "url_owner u = Inr ow \<Longrightarrow>
   workspace (snd (main_try (path_stem u) ow u fetch stdin w))
   \<and> snd (main u fetch stdin w) = cleanup (snd (main_try (path_stem u) ow u fetch stdin w))
   \<and> \<not> workspace (snd (main u fetch stdin w))"
  using main_try_workspace [of "path_stem u" ow u fetch stdin w]
  by (auto simp: main_def cleanup_def split: prod.splits)

theorem main_removes_workspace_witness:
  "url_owner ''https://github.com/me/svc'' = Inr ''me''
   \<and> main ''https://github.com/me/svc'' None [] \<lparr>workspace = False, temp_dir = False, project = Map.empty\<rparr>
       = (Inl CalledProcessError, \<lparr>workspace = False, temp_dir = True, project = Map.empty\<rparr>)
   \<and> \<not> workspace (snd (main ''https://github.com/me/svc'' None []
         \<lparr>workspace = False, temp_dir = False, project = Map.empty\<rparr>))"
  using main_removes_workspace [OF url_owner_demo, of None "[]"
      "\<lparr>workspace = False, temp_dir = False, project = Map.empty\<rparr>"]
  by (simp add: main_def url_owner_demo path_stem_demo main_try_def run_analysis_def clone_repo_def
      cleanup_def)

text \<open>
  Claim C3. When the analysis has neither a true \<^verbatim>\<open>has_dockerfile\<close> nor a true
  \<^verbatim>\<open>has_docker_compose\<close>, \<^verbatim>\<open>main\<close> returns 1 whatever the user's responses are, and the
  files under the project root are those it started with.
\<close>

theorem no_docker_support:
  "url_owner u = Inr ow \<Longrightarrow>
   run_analysis (path_stem u) ow u fetch w = (Inr a, w1) \<Longrightarrow>
   \<not> truthy (py_get a ''has_dockerfile'' PNone) \<Longrightarrow>
   \<not> truthy (py_get a ''has_docker_compose'' PNone) \<Longrightarrow>
   main u fetch stdin w = (Inr 1, cleanup w1) \<and> project (cleanup w1) = project w"
  by (auto simp: main_def main_try_def run_analysis_def clone_repo_def cleanup_def Let_def
      split: option.splits)

lemma empty_repo_analysis:
  "run_analysis ''svc'' ''me'' ''https://github.com/me/svc''
     (Some \<lparr>files = Map.empty, package_json = Json_invalid\<rparr>)
     \<lparr>workspace = False, temp_dir = False, project = Map.empty\<rparr>
   = (Inr [''repo_name'' \<mapsto> PStr ''svc'', ''repo_owner'' \<mapsto> PStr ''me'',
           ''github_url'' \<mapsto> PStr ''https://github.com/me/svc''],
      \<lparr>workspace = True, temp_dir = True, project = Map.empty\<rparr>)"
  by (simp add: run_analysis_def clone_repo_def merge_analysis_def analyze_package_json_def
      analyze_dockerfile_def analyze_docker_compose_def analyze_readme_def exn_bind_def)

theorem no_docker_support_witness:
  "main ''https://github.com/me/svc'' (Some \<lparr>files = Map.empty, package_json = Json_invalid\<rparr>)
     [''x'', ''y''] \<lparr>workspace = False, temp_dir = False, project = Map.empty\<rparr>
   = (Inr 1, \<lparr>workspace = False, temp_dir = True, project = Map.empty\<rparr>)"
  using no_docker_support [OF url_owner_demo, of "Some \<lparr>files = Map.empty, package_json = Json_invalid\<rparr>"
      "\<lparr>workspace = False, temp_dir = False, project = Map.empty\<rparr>"
      "[''repo_name'' \<mapsto> PStr ''svc'', ''repo_owner'' \<mapsto> PStr ''me'',
           ''github_url'' \<mapsto> PStr ''https://github.com/me/svc'']"
      "\<lparr>workspace = True, temp_dir = True, project = Map.empty\<rparr>" "[''x'', ''y'']"]
  by (simp add: path_stem_demo empty_repo_analysis py_get_def cleanup_def)

lemma starts_with_take: "starts_with p s = (take (length p) s = p)"
  by (induction p s rule: starts_with.induct) auto

lemma starts_with_append: "starts_with p (p @ s)"
  by (simp add: starts_with_take)

lemma occurrences_ge1: "pat \<noteq> [] \<Longrightarrow> 1 \<le> occurrences pat (xs @ pat @ ys)"
proof (induction xs)
  case Nil
  then show ?case by (cases pat) (simp_all add: starts_with_take)
next
  case (Cons x xs)
  then show ?case by simp
qed

lemma first_at_Cons:
  "first_at pat (c # pre) \<Longrightarrow> first_at pat pre \<and> \<not> starts_with pat (c # pre @ pat)"
  unfolding first_at_def
proof
  assume a: "\<forall>i<length (c # pre). \<not> starts_with pat (drop i ((c # pre) @ pat))"
  show "\<forall>i<length pre. \<not> starts_with pat (drop i (pre @ pat))"
  proof (intro allI impI)
    fix i assume "i < length pre"
    then have "Suc i < length (c # pre)" by simp
    with a have "\<not> starts_with pat (drop (Suc i) ((c # pre) @ pat))" by blast
    then show "\<not> starts_with pat (drop i (pre @ pat))" by simp
  qed
  from a have "\<not> starts_with pat (drop 0 ((c # pre) @ pat))" by (metis length_greater_0_conv list.distinct(1))
  then show "\<not> starts_with pat (c # pre @ pat)" by simp
qed

lemma starts_with_longer:
  "length p \<le> length xs \<Longrightarrow> starts_with p (xs @ ys) = starts_with p xs"
  by (simp add: starts_with_take)

lemma occurrences_first:
  "pat \<noteq> [] \<Longrightarrow> occurrences pat (pre @ pat @ post) = 1 \<Longrightarrow> first_at pat pre"
proof (induction pre)
  case Nil
  then show ?case by (simp add: first_at_def)
next
  case (Cons c pre)
  have ge: "1 \<le> occurrences pat (pre @ pat @ post)" using Cons.prems(1) by (rule occurrences_ge1)
  from Cons.prems(2) ge have ns: "\<not> starts_with pat (c # pre @ pat @ post)"
    and one: "occurrences pat (pre @ pat @ post) = 1"
    by (auto split: if_splits)
  from Cons.IH [OF Cons.prems(1) one] have ih: "first_at pat pre" .
  have ns': "\<not> starts_with pat (c # pre @ pat)"
    using ns starts_with_longer [of pat "c # pre @ pat" post] by simp
  show ?case unfolding first_at_def
  proof (intro allI impI)
    fix i assume i: "i < length (c # pre)"
    show "\<not> starts_with pat (drop i ((c # pre) @ pat))"
    proof (cases i)
      case 0
      then show ?thesis using ns' by simp
    next
      case (Suc j)
      then have "j < length pre" using i by simp
      then show ?thesis using ih Suc by (simp add: first_at_def)
    qed
  qed
qed

lemma sub_first_literal:
  "pat \<noteq> [] \<Longrightarrow> first_at pat pre \<Longrightarrow>
   sub_first (re_literal pat) items bol (pre @ pat @ post) = pre @ expand items pat pat @ post"
proof (induction pre arbitrary: bol)
  case Nil
  then show ?case by (cases pat) (simp_all add: re_literal_def starts_with_take)
next
  case (Cons c pre)
  from first_at_Cons [OF Cons.prems(2)] have fa: "first_at pat pre"
    and ns: "\<not> starts_with pat (c # pre @ pat)" by simp_all
  have "\<not> starts_with pat (c # pre @ pat @ post)"
    using ns starts_with_longer [of pat "c # pre @ pat" post] by simp
  then show ?case using Cons.IH [OF Cons.prems(1) fa] by (simp add: re_literal_def)
qed

lemma tokens_plain: "bs \<notin> set s \<Longrightarrow> tokens s = map Ch s"
  by (induction s rule: tokens.induct) auto

lemma bad_next_plain: "\<not> bad_next (map Ch s)"
  by (cases s) auto

lemma parse_plain: "parse_template (map Ch s) = Inr (map Lit s)"
  by (induction s) (auto simp: bad_next_plain exn_bind_def)

lemma parse_group1:
  "bs \<notin> set s \<Longrightarrow> \<not> is_digit c \<Longrightarrow> c \<noteq> bs \<Longrightarrow>
   parse_template (tokens (bs # CHR ''1'' # c # s)) = Inr (Group 1 # Lit c # map Lit s)"
  using bad_next_plain [of "c # s"] parse_plain [of "c # s"]
  by (simp add: tokens_plain escape_def addgroup_def digit_val_def exn_bind_def is_digit_def
      digit_chars_def bs_def)

lemma expand_lits: "expand (map Lit s) w g = s"
  by (induction s) auto

lemma normalized_no_bs: "normalize_name n = n \<Longrightarrow> bs \<notin> set n"
proof
  assume n: "normalize_name n = n" and b: "bs \<in> set n"
  from n have "\<forall>x\<in>set n. name_char x" unfolding normalize_name_def by (simp add: filter_id_conv)
  with b have "name_char bs" by blast
  then show False by (simp add: name_char_iff bs_def)
qed

text \<open>
  The name of every descriptor that \<^verbatim>\<open>interactive_config\<close> returns, in either copy, is
  normalised.
\<close>

lemma normalize_name_idem: "normalize_name (normalize_name s) = normalize_name s"
  by (simp add: normalize_name_def)

lemma interactive_config_with_normalises:
  "interactive_config_with ddesc dprompt dport a stdin = Inr (ok, cfg, rest) \<Longrightarrow>
   normalize_name (name cfg) = name cfg"
  unfolding interactive_config_with_def exn_bind_def Let_def
  by (auto split: sum.splits prod.splits simp: normalize_name_idem)

text \<open>Facts about reading in text mode.\<close>

lemma universal_newlines_no_cr: "cr \<notin> set (universal_newlines s)"
  by (induction s rule: universal_newlines.induct) (auto simp: nl_def cr_def)

lemma universal_newlines_append:
  "cr \<notin> set a \<Longrightarrow> universal_newlines (a @ b) = a @ universal_newlines b"
proof (induction a)
  case Nil
  then show ?case by simp
next
  case (Cons x xs)
  then have x: "x \<noteq> cr" and xs: "cr \<notin> set xs" by auto
  show ?case
  proof (cases "xs @ b")
    case Nil
    then show ?thesis using x by simp
  next
    case (Cons y ys)
    have "universal_newlines (x # xs @ b) = x # universal_newlines (xs @ b)"
      unfolding Cons using x by simp
    then show ?thesis using Cons.IH [OF xs] by simp
  qed
qed

lemma universal_newlines_crlf:
  "cr \<notin> set a \<Longrightarrow> universal_newlines (a @ cr # nl # b) = a @ nl # universal_newlines b"
  using universal_newlines_append [of a "cr # nl # b"] by simp

lemma rewrite_after_append:
  assumes "f path = Some (File stored)"
    and "edit (universal_newlines (stored @ block)) = Inr c'"
  shows "(case append_file path block f of
            Inl e \<Rightarrow> (Some e, f)
          | Inr f' \<Rightarrow> rewrite_file path edit f') = (None, f(path \<mapsto> File c'))"
  using assms by (simp add: rewrite_file_def read_file_def append_file_def)

lemma volumes_anchor_nonempty: "volumes_anchor \<noteq> []"
  by (simp add: volumes_anchor_def)

lemma volume_template:
  assumes n: "normalize_name (name cfg) = name cfg"
  shows "parse_template (tokens ([bs, CHR ''1''] @ volume_key cfg)) = Inr (Group 1 # map Lit (volume_key cfg))"
proof -
  define r where "r = '' '' @ name cfg @ ''_data:'' @ [nl]"
  have k: "volume_key cfg = CHR '' '' # r"
    by (simp add: volume_key_def volume_name_def r_def)
  have b: "bs \<notin> set r"
    using normalized_no_bs [OF n] by (simp add: r_def bs_def nl_def)
  have "parse_template (tokens (bs # CHR ''1'' # CHR '' '' # r)) = Inr (Group 1 # Lit CHR '' '' # map Lit r)"
    by (rule parse_group1 [OF b]) (simp_all add: is_digit_def digit_chars_def bs_def)
  then show ?thesis unfolding k by simp
qed

lemma volume_sub:
  assumes n: "normalize_name (name cfg) = name cfg"
    and fa: "first_at volumes_anchor pre"
  shows "re_sub1 (re_literal volumes_anchor) ([bs, CHR ''1''] @ volume_key cfg)
           (pre @ volumes_anchor @ rest)
         = Inr (pre @ volumes_anchor @ volume_key cfg @ rest)"
proof -
  have e: "expand (Group 1 # map Lit (volume_key cfg)) volumes_anchor volumes_anchor
           = volumes_anchor @ volume_key cfg"
    by (simp add: expand_lits)
  have "sub_first (re_literal volumes_anchor) (Group 1 # map Lit (volume_key cfg)) True
          (pre @ volumes_anchor @ rest)
        = pre @ expand (Group 1 # map Lit (volume_key cfg)) volumes_anchor volumes_anchor @ rest"
    by (rule sub_first_literal [OF volumes_anchor_nonempty fa])
  then show ?thesis
    unfolding re_sub1_def volume_template [OF n] exn_bind_def e by simp
qed

text \<open>
  One run of \<^verbatim>\<open>add_to_docker_compose\<close> on a manifest whose text, read back after the
  service block is appended, has its first \<^verbatim>\<open>volumes:\n\<close> at \<open>pre\<close>.
\<close>

lemma add_to_docker_compose_read:
  assumes n: "normalize_name (name cfg) = name cfg"
    and fa: "first_at volumes_anchor pre"
    and f: "f ''docker-compose.yml'' = Some (File stored)"
    and r: "universal_newlines (stored @ service_block cfg) = pre @ volumes_anchor @ post"
  shows "add_to_docker_compose cfg f =
     (None, f(''docker-compose.yml'' \<mapsto> File (pre @ volumes_anchor @ volume_key cfg @ post)))"
proof -
  have "re_sub1 (re_literal volumes_anchor) ([bs, CHR ''1''] @ volume_key cfg)
           (universal_newlines (stored @ service_block cfg))
         = Inr (pre @ volumes_anchor @ volume_key cfg @ post)"
    unfolding r by (rule volume_sub [OF n fa])
  from rewrite_after_append [where f = f and path = "''docker-compose.yml''"
      and edit = "re_sub1 (re_literal volumes_anchor) ([bs, CHR ''1''] @ volume_key cfg)"
      and block = "service_block cfg", OF f this]
  show ?thesis unfolding add_to_docker_compose_def .
qed

lemma add_to_docker_compose_first:
  assumes n: "normalize_name (name cfg) = name cfg"
    and fa: "first_at volumes_anchor pre"
    and f: "f ''docker-compose.yml'' = Some (File (pre @ volumes_anchor @ post))"
    and c: "cr \<notin> set (pre @ volumes_anchor @ post)"
  shows "add_to_docker_compose cfg f =
     (None, f(''docker-compose.yml'' \<mapsto>
        File (pre @ volumes_anchor @ volume_key cfg @ post @ universal_newlines (service_block cfg))))"
proof -
  have "universal_newlines ((pre @ volumes_anchor @ post) @ service_block cfg)
        = pre @ volumes_anchor @ (post @ universal_newlines (service_block cfg))"
    using universal_newlines_append [OF c, of "service_block cfg"] by simp
  from add_to_docker_compose_read [where f = f and cfg = cfg and pre = pre
      and stored = "pre @ volumes_anchor @ post"
      and post = "post @ universal_newlines (service_block cfg)", OF n fa f this]
  show ?thesis by simp
qed

lemma normalized_no_cr: "normalize_name n = n \<Longrightarrow> cr \<notin> set n"
proof
  assume n: "normalize_name n = n" and b: "cr \<in> set n"
  from n have "\<forall>x\<in>set n. name_char x" unfolding normalize_name_def by (simp add: filter_id_conv)
  with b have "name_char cr" by blast
  then show False by (simp add: name_char_iff cr_def)
qed

lemma volume_key_no_cr: "normalize_name (name cfg) = name cfg \<Longrightarrow> cr \<notin> set (volume_key cfg)"
  using normalized_no_cr [of "name cfg"]
  by (simp add: volume_key_def volume_name_def cr_def nl_def)

text \<open>
  Claim C2, as stated, fails on a manifest with a carriage return: the file below holds
  exactly one \<^verbatim>\<open>volumes:\n\<close>, in its third line, but read in text mode its first line
  \<^verbatim>\<open>volumes:\r\n\<close> becomes \<^verbatim>\<open>volumes:\n\<close> too, and the volume key is put after that first
  line and not after the one occurrence.
\<close>

theorem volume_key_after_crlf_line:
  "occurrences (''volumes:'' @ [nl])
     (''volumes:'' @ [cr, nl] @ ''  a:'' @ [nl] @ ''volumes:'' @ [nl] @ ''  b:'' @ [nl]) = 1
   \<and> add_to_docker_compose demo_config
       [''docker-compose.yml'' \<mapsto>
          File (''volumes:'' @ [cr, nl] @ ''  a:'' @ [nl] @ ''volumes:'' @ [nl] @ ''  b:'' @ [nl])]
     = (None, [''docker-compose.yml'' \<mapsto>
          File (''volumes:'' @ [nl] @ ''  svc_data:'' @ [nl] @ ''  a:'' @ [nl]
                @ ''volumes:'' @ [nl] @ ''  b:'' @ [nl] @ service_block demo_config)])"
proof -
  have o: "occurrences (''volumes:'' @ [nl])
     (''volumes:'' @ [cr, nl] @ ''  a:'' @ [nl] @ ''volumes:'' @ [nl] @ ''  b:'' @ [nl]) = 1"
    by (simp add: nl_def cr_def)
  have b: "cr \<notin> set (service_block demo_config)"
    by (simp add: service_block_def demo_config_def unlines_def upper_def to_upper_def
        lower_chars_def upper_chars_def cr_def nl_def dq_def)
  have t: "cr \<notin> set ((''  a:'' @ [nl] @ ''volumes:'' @ [nl] @ ''  b:'' @ [nl]) @ service_block demo_config)"
    using b by (simp add: cr_def nl_def)
  have "universal_newlines
          (''volumes:'' @ cr # nl # ((''  a:'' @ [nl] @ ''volumes:'' @ [nl] @ ''  b:'' @ [nl])
             @ service_block demo_config))
        = ''volumes:'' @ nl # universal_newlines
            ((''  a:'' @ [nl] @ ''volumes:'' @ [nl] @ ''  b:'' @ [nl]) @ service_block demo_config)"
    by (rule universal_newlines_crlf) (simp add: cr_def)
  then have u: "universal_newlines
             ((''volumes:'' @ [cr, nl] @ ''  a:'' @ [nl] @ ''volumes:'' @ [nl] @ ''  b:'' @ [nl])
              @ service_block demo_config)
           = [] @ volumes_anchor
             @ (''  a:'' @ [nl] @ ''volumes:'' @ [nl] @ ''  b:'' @ [nl] @ service_block demo_config)"
    unfolding universal_newlines_id [OF t] by (simp add: volumes_anchor_def)
  have fa: "first_at volumes_anchor []" by (simp add: first_at_def)
  have n: "normalize_name (name demo_config) = name demo_config"
    by (simp add: demo_config_def normalize_name_def name_char_iff)
  have f: "[''docker-compose.yml'' \<mapsto>
          File (''volumes:'' @ [cr, nl] @ ''  a:'' @ [nl] @ ''volumes:'' @ [nl] @ ''  b:'' @ [nl])]
          ''docker-compose.yml''
        = Some (File (''volumes:'' @ [cr, nl] @ ''  a:'' @ [nl] @ ''volumes:'' @ [nl] @ ''  b:'' @ [nl]))"
    by simp
  from add_to_docker_compose_read [where cfg = demo_config and pre = "[]"
      and f = "[''docker-compose.yml'' \<mapsto>
          File (''volumes:'' @ [cr, nl] @ ''  a:'' @ [nl] @ ''volumes:'' @ [nl] @ ''  b:'' @ [nl])]"
      and post = "''  a:'' @ [nl] @ ''volumes:'' @ [nl] @ ''  b:'' @ [nl] @ service_block demo_config",
      OF n fa f u]
  have "add_to_docker_compose demo_config
       [''docker-compose.yml'' \<mapsto>
          File (''volumes:'' @ [cr, nl] @ ''  a:'' @ [nl] @ ''volumes:'' @ [nl] @ ''  b:'' @ [nl])]
     = (None, [''docker-compose.yml'' \<mapsto>
          File (''volumes:'' @ [nl] @ ''  svc_data:'' @ [nl] @ ''  a:'' @ [nl]
                @ ''volumes:'' @ [nl] @ ''  b:'' @ [nl] @ service_block demo_config)])"
    by (simp add: volumes_anchor_def volume_key_def volume_name_def demo_config_def)
  with o show ?thesis by (rule conjI)
qed

text \<open>
  Claim C2, amended. Let the manifest be free of carriage returns and contain exactly one
  \<^verbatim>\<open>volumes:\n\<close>, after \<open>pre\<close>, and let the descriptors carry normalised names, as
  \<^verbatim>\<open>interactive_config\<close> makes them. One run of \<^verbatim>\<open>add_to_docker_compose\<close> completes and
  leaves the manifest with the one line \<^verbatim>\<open>  <name>_data:\<close> right after that occurrence and
  the service block (as read back) at the end; nothing else changes. A second run on the
  result completes too and puts its line right after the same occurrence.
\<close>

theorem volume_key_inserted:
  assumes "f ''docker-compose.yml'' = Some (File content)"
    and "cr \<notin> set content"
    and "occurrences (''volumes:'' @ [nl]) content = 1"
    and "content = pre @ ''volumes:'' @ [nl] @ post"
    and "normalize_name (name cfg) = name cfg"
    and "normalize_name (name cfg') = name cfg'"
  shows "add_to_docker_compose cfg f =
           (None, f(''docker-compose.yml'' \<mapsto>
              File (pre @ ''volumes:'' @ [nl] @ ''  '' @ name cfg @ ''_data:'' @ [nl] @ post
                    @ universal_newlines (service_block cfg))))
         \<and> run_mutations [add_to_docker_compose cfg, add_to_docker_compose cfg'] f =
           (None, f(''docker-compose.yml'' \<mapsto>
              File (pre @ ''volumes:'' @ [nl] @ ''  '' @ name cfg' @ ''_data:'' @ [nl]
                    @ ''  '' @ name cfg @ ''_data:'' @ [nl] @ post
                    @ universal_newlines (service_block cfg)
                    @ universal_newlines (service_block cfg'))))"
proof -
  have c: "content = pre @ volumes_anchor @ post"
    using assms(4) by (simp add: volumes_anchor_def)
  have fa: "first_at volumes_anchor pre"
    using assms(3) unfolding assms(4)
    by (intro occurrences_first [OF volumes_anchor_nonempty]) (simp add: volumes_anchor_def)
  have f0: "f ''docker-compose.yml'' = Some (File (pre @ volumes_anchor @ post))"
    using assms(1) c by simp
  have c0: "cr \<notin> set (pre @ volumes_anchor @ post)"
    using assms(2) c by simp
  let ?c1 = "pre @ volumes_anchor @ volume_key cfg @ post @ universal_newlines (service_block cfg)"
  have r1: "add_to_docker_compose cfg f = (None, f(''docker-compose.yml'' \<mapsto> File ?c1))"
    by (rule add_to_docker_compose_first [where f = f and cfg = cfg and pre = pre and post = post,
          OF assms(5) fa f0 c0])
  have f1: "(f(''docker-compose.yml'' \<mapsto> File ?c1)) ''docker-compose.yml'' =
     Some (File (pre @ volumes_anchor
                 @ (volume_key cfg @ post @ universal_newlines (service_block cfg))))"
    by simp
  have c1: "cr \<notin> set (pre @ volumes_anchor
                 @ (volume_key cfg @ post @ universal_newlines (service_block cfg)))"
    using c0 volume_key_no_cr [OF assms(5)] universal_newlines_no_cr [of "service_block cfg"]
    by simp
  have r2: "add_to_docker_compose cfg' (f(''docker-compose.yml'' \<mapsto> File ?c1)) =
     (None, f(''docker-compose.yml'' \<mapsto>
              File (pre @ volumes_anchor @ volume_key cfg' @ volume_key cfg @ post
                    @ universal_newlines (service_block cfg)
                    @ universal_newlines (service_block cfg'))))"
    using add_to_docker_compose_first [where f = "f(''docker-compose.yml'' \<mapsto> File ?c1)"
        and cfg = cfg' and pre = pre
        and post = "volume_key cfg @ post @ universal_newlines (service_block cfg)",
        OF assms(6) fa f1 c1]
    by simp
  show ?thesis using r1 r2
    by (simp add: volumes_anchor_def volume_key_def volume_name_def)
qed

lemma demo_name_normal: "normalize_name (name demo_config) = name demo_config"
  by (simp add: demo_config_def normalize_name_def name_char_iff)

theorem volume_key_inserted_witness:
  "occurrences (''volumes:'' @ [nl]) (''services:'' @ [nl] @ ''volumes:'' @ [nl] @ ''  db:'' @ [nl]) = 1
   \<and> cr \<notin> set (''services:'' @ [nl] @ ''volumes:'' @ [nl] @ ''  db:'' @ [nl])
   \<and> add_to_docker_compose demo_config
        [''docker-compose.yml'' \<mapsto> File (''services:'' @ [nl] @ ''volumes:'' @ [nl] @ ''  db:'' @ [nl])]
      = (None, [''docker-compose.yml'' \<mapsto>
           File (''services:'' @ [nl] @ ''volumes:'' @ [nl] @ ''  svc_data:'' @ [nl] @ ''  db:'' @ [nl]
                 @ universal_newlines (service_block demo_config))])"
proof -
  have occ: "occurrences (''volumes:'' @ [nl])
               (''services:'' @ [nl] @ ''volumes:'' @ [nl] @ ''  db:'' @ [nl]) = 1"
    by (simp add: nl_def)
  have nc: "cr \<notin> set (''services:'' @ [nl] @ ''volumes:'' @ [nl] @ ''  db:'' @ [nl])"
    by (simp add: nl_def cr_def)
  have c: "''services:'' @ [nl] @ ''volumes:'' @ [nl] @ ''  db:'' @ [nl]
           = (''services:'' @ [nl]) @ ''volumes:'' @ [nl] @ (''  db:'' @ [nl])"
    by simp
  have f: "[''docker-compose.yml'' \<mapsto>
              File (''services:'' @ [nl] @ ''volumes:'' @ [nl] @ ''  db:'' @ [nl])]
             ''docker-compose.yml''
           = Some (File (''services:'' @ [nl] @ ''volumes:'' @ [nl] @ ''  db:'' @ [nl]))"
    by simp
  from volume_key_inserted [where content = "''services:'' @ [nl] @ ''volumes:'' @ [nl] @ ''  db:'' @ [nl]"
      and pre = "''services:'' @ [nl]" and post = "''  db:'' @ [nl]"
      and f = "[''docker-compose.yml'' \<mapsto>
                 File (''services:'' @ [nl] @ ''volumes:'' @ [nl] @ ''  db:'' @ [nl])]"
      and cfg = demo_config and cfg' = demo_config,
      OF f nc occ c demo_name_normal demo_name_normal]
  have "add_to_docker_compose demo_config
        [''docker-compose.yml'' \<mapsto> File (''services:'' @ [nl] @ ''volumes:'' @ [nl] @ ''  db:'' @ [nl])]
      = (None, [''docker-compose.yml'' \<mapsto>
           File (''services:'' @ [nl] @ ''volumes:'' @ [nl] @ ''  svc_data:'' @ [nl] @ ''  db:'' @ [nl]
                 @ universal_newlines (service_block demo_config))])"
    by (simp add: demo_config_def)
  with occ nc show ?thesis by blast
qed

text \<open>
  A text without newline characters occurs in a file as read exactly when it occurs in
  the file as stored.
\<close>

lemma starts_with_universal_newlines:
  "cr \<notin> set p \<Longrightarrow> nl \<notin> set p \<Longrightarrow> starts_with p (universal_newlines s) = starts_with p s"
proof (induction s arbitrary: p rule: universal_newlines.induct)
  case 1
  then show ?case by simp
next
  case (2 c)
  then show ?case by (cases p) auto
next
  case (3 c d cs)
  show ?case
  proof (cases p)
    case Nil
    then show ?thesis by simp
  next
    case (Cons x xs)
    then have x: "x \<noteq> cr" "x \<noteq> nl" and xs: "cr \<notin> set xs" "nl \<notin> set xs"
      using "3.prems" by auto
    show ?thesis
    proof (cases "c = cr")
      case True
      then show ?thesis using x Cons by auto
    next
      case False
      then show ?thesis using "3.IH"(3) [OF False xs] Cons by simp
    qed
  qed
qed

lemma contains_universal_newlines:
  assumes "cr \<notin> set p" "nl \<notin> set p" "p \<noteq> []"
  shows "contains p (universal_newlines s) = contains p s"
proof (induction s rule: universal_newlines.induct)
  case 1
  then show ?case by simp
next
  case (2 c)
  obtain x xs where p: "p = x # xs" using assms(3) by (cases p) auto
  then have "x \<noteq> cr" "x \<noteq> nl" using assms by auto
  then show ?case using p by auto
next
  case (3 c d cs)
  obtain x xs where p: "p = x # xs" using assms(3) by (cases p) auto
  then have x: "x \<noteq> cr" "x \<noteq> nl" using assms by auto
  show ?case
  proof (cases "c = cr")
    case True
    note c = True
    show ?thesis
    proof (cases "d = nl")
      case True
      then show ?thesis using c "3.IH"(1) [OF c True] x p by auto
    next
      case False
      then show ?thesis using c "3.IH"(2) [OF c False] x p by auto
    qed
  next
    case False
    have s: "starts_with p (c # universal_newlines (d # cs)) = starts_with p (c # d # cs)"
      using starts_with_universal_newlines [OF assms(1,2), of "c # d # cs"] False by simp
    show ?thesis using False "3.IH"(3) [OF False] s by simp
  qed
qed

lemma profile_test_plain: "cr \<notin> set (profile_test e) \<longleftrightarrow> cr \<notin> set e"
  "nl \<notin> set (profile_test e) \<longleftrightarrow> nl \<notin> set e" "profile_test e \<noteq> []"
  by (auto simp: profile_test_def cr_def nl_def dq_def)

lemma final_report_edit_no_anchor:
  assumes "\<not> contains (''is_profile_active '' @ [dq] @ ''outline'' @ [dq]) stored"
    and "\<not> contains (''is_profile_active '' @ [dq] @ ''docmost'' @ [dq]) stored"
    and "\<not> contains (''is_profile_active '' @ [dq] @ ''paddleocr'' @ [dq]) stored"
    and "\<not> contains (''is_profile_active '' @ [dq] @ ''python-runner'' @ [dq]) stored"
  shows "final_report_edit cfg (universal_newlines stored) = Inr (universal_newlines stored)"
proof -
  have c: "contains (profile_test e) (universal_newlines stored) = contains (profile_test e) stored"
    if "e \<in> {''outline'', ''docmost'', ''paddleocr'', ''python-runner''}" for e
    using that
    by (intro contains_universal_newlines) (auto simp: profile_test_def cr_def nl_def dq_def)
  have "\<not> contains (profile_test ''outline'') stored" "\<not> contains (profile_test ''docmost'') stored"
    "\<not> contains (profile_test ''paddleocr'') stored"
    "\<not> contains (profile_test ''python-runner'') stored"
    using assms by (simp_all add: profile_test_def)
  then show ?thesis
    unfolding final_report_edit_def by (simp only: c insertI1 insertI2 if_False)
qed

lemma final_report_no_anchor:
  assumes "f ''scripts/install/07_final_report.sh'' = Some (File stored)"
    and "\<not> contains (''is_profile_active '' @ [dq] @ ''outline'' @ [dq]) stored"
    and "\<not> contains (''is_profile_active '' @ [dq] @ ''docmost'' @ [dq]) stored"
    and "\<not> contains (''is_profile_active '' @ [dq] @ ''paddleocr'' @ [dq]) stored"
    and "\<not> contains (''is_profile_active '' @ [dq] @ ''python-runner'' @ [dq]) stored"
  shows "add_to_final_report cfg f =
           (None, f(''scripts/install/07_final_report.sh'' \<mapsto> File (universal_newlines stored)))"
  using assms(1) final_report_edit_no_anchor [OF assms(2-5), of cfg]
  by (simp add: add_to_final_report_def rewrite_file_def read_file_def)

text \<open>
  Claim C8, as stated, fails on a report script with a carriage return: it has none of
  the four anchors, and \<^verbatim>\<open>add_to_final_report\<close> leaves it with another content, the
  line end \<^verbatim>\<open>\r\n\<close> having become \<^verbatim>\<open>\n\<close>.
\<close>

theorem final_report_crlf_rewritten:
  "\<not> contains (''is_profile_active '' @ [dq] @ ''outline'' @ [dq]) (''echo done'' @ [cr, nl])
   \<and> \<not> contains (''is_profile_active '' @ [dq] @ ''docmost'' @ [dq]) (''echo done'' @ [cr, nl])
   \<and> \<not> contains (''is_profile_active '' @ [dq] @ ''paddleocr'' @ [dq]) (''echo done'' @ [cr, nl])
   \<and> \<not> contains (''is_profile_active '' @ [dq] @ ''python-runner'' @ [dq]) (''echo done'' @ [cr, nl])
   \<and> add_to_final_report demo_config
        [''scripts/install/07_final_report.sh'' \<mapsto> File (''echo done'' @ [cr, nl])]
      = (None, [''scripts/install/07_final_report.sh'' \<mapsto> File (''echo done'' @ [nl])])
   \<and> ''echo done'' @ [nl] \<noteq> ''echo done'' @ [cr, nl]"
proof -
  have a: "\<not> contains (''is_profile_active '' @ [dq] @ ''outline'' @ [dq]) (''echo done'' @ [cr, nl])"
    "\<not> contains (''is_profile_active '' @ [dq] @ ''docmost'' @ [dq]) (''echo done'' @ [cr, nl])"
    "\<not> contains (''is_profile_active '' @ [dq] @ ''paddleocr'' @ [dq]) (''echo done'' @ [cr, nl])"
    "\<not> contains (''is_profile_active '' @ [dq] @ ''python-runner'' @ [dq]) (''echo done'' @ [cr, nl])"
    by (simp_all add: dq_def cr_def nl_def)
  have u: "universal_newlines (''echo done'' @ [cr, nl]) = ''echo done'' @ [nl]"
    using universal_newlines_crlf [of "''echo done''" "[]"] by (simp add: cr_def)
  have f: "[''scripts/install/07_final_report.sh'' \<mapsto> File (''echo done'' @ [cr, nl])]
             ''scripts/install/07_final_report.sh'' = Some (File (''echo done'' @ [cr, nl]))"
    by simp
  have r: "add_to_final_report demo_config
        [''scripts/install/07_final_report.sh'' \<mapsto> File (''echo done'' @ [cr, nl])]
      = (None, [''scripts/install/07_final_report.sh'' \<mapsto> File (''echo done'' @ [nl])])"
    using final_report_no_anchor [where f = "[''scripts/install/07_final_report.sh'' \<mapsto>
        File (''echo done'' @ [cr, nl])]" and cfg = demo_config, OF f a]
    unfolding u by simp
  have d: "''echo done'' @ [nl] \<noteq> ''echo done'' @ [cr, nl]"
    by simp
  show ?thesis using a r d by blast
qed

text \<open>
  Claim C8, amended. When the final-report file's content contains none of the four
  anchors, \<^verbatim>\<open>add_to_final_report\<close> completes, inserts nothing and writes back exactly the
  content it read; a file without carriage returns is left as it was (in a file with
  carriage returns, what changes is that \<^verbatim>\<open>\r\n\<close> and \<^verbatim>\<open>\r\<close> become \<^verbatim>\<open>\n\<close>).
\<close>

theorem final_report_unchanged:
  assumes "f ''scripts/install/07_final_report.sh'' = Some (File content)"
    and "\<not> contains (''is_profile_active '' @ [dq] @ ''outline'' @ [dq]) content"
    and "\<not> contains (''is_profile_active '' @ [dq] @ ''docmost'' @ [dq]) content"
    and "\<not> contains (''is_profile_active '' @ [dq] @ ''paddleocr'' @ [dq]) content"
    and "\<not> contains (''is_profile_active '' @ [dq] @ ''python-runner'' @ [dq]) content"
  shows "read_file ''scripts/install/07_final_report.sh'' f = Inr (universal_newlines content)
     \<and> add_to_final_report cfg f =
         (None, f(''scripts/install/07_final_report.sh'' \<mapsto> File (universal_newlines content)))
     \<and> (cr \<notin> set content \<longrightarrow> add_to_final_report cfg f = (None, f))"
proof -
  have r: "read_file ''scripts/install/07_final_report.sh'' f = Inr (universal_newlines content)"
    using assms(1) by (simp add: read_file_def)
  have w: "add_to_final_report cfg f =
         (None, f(''scripts/install/07_final_report.sh'' \<mapsto> File (universal_newlines content)))"
    by (rule final_report_no_anchor [where f = f and cfg = cfg and stored = content, OF assms])
  have u: "add_to_final_report cfg f = (None, f)" if "cr \<notin> set content"
  proof -
    have "f(''scripts/install/07_final_report.sh'' \<mapsto> File (universal_newlines content)) = f"
      using assms(1) universal_newlines_id [OF that] by (simp add: fun_upd_idem)
    then show ?thesis using w by simp
  qed
  show ?thesis using r w u by blast
qed

theorem final_report_unchanged_witness:
  "cr \<notin> set ''echo done''
   \<and> add_to_final_report demo_config [''scripts/install/07_final_report.sh'' \<mapsto> File ''echo done'']
      = (None, [''scripts/install/07_final_report.sh'' \<mapsto> File ''echo done''])"
proof -
  have f: "[''scripts/install/07_final_report.sh'' \<mapsto> File ''echo done'']
             ''scripts/install/07_final_report.sh'' = Some (File ''echo done'')"
    by simp
  have a: "\<not> contains (''is_profile_active '' @ [dq] @ ''outline'' @ [dq]) ''echo done''"
    "\<not> contains (''is_profile_active '' @ [dq] @ ''docmost'' @ [dq]) ''echo done''"
    "\<not> contains (''is_profile_active '' @ [dq] @ ''paddleocr'' @ [dq]) ''echo done''"
    "\<not> contains (''is_profile_active '' @ [dq] @ ''python-runner'' @ [dq]) ''echo done''"
    by (simp_all add: dq_def)
  have c: "cr \<notin> set ''echo done''" by (simp add: cr_def)
  from final_report_unchanged [where f = "[''scripts/install/07_final_report.sh'' \<mapsto> File ''echo done'']"
      and cfg = demo_config, OF f a]
  have "add_to_final_report demo_config [''scripts/install/07_final_report.sh'' \<mapsto> File ''echo done'']
      = (None, [''scripts/install/07_final_report.sh'' \<mapsto> File ''echo done''])"
    using c by blast
  with c show ?thesis by (rule conjI)
qed

lemma base_marker_nonempty: "base_marker \<noteq> []"
  by (simp add: base_marker_def)

lemma re_base_services_alt:
  "re_base_services bol s =
     (let t = takeWhile (\<lambda>c. c \<noteq> CHR '')'') (drop (length base_marker) s)
      in if starts_with base_marker s \<and> t \<noteq> []
         then Some (base_marker @ t, length base_marker + length t) else None)"
  by (simp add: re_base_services_def base_marker_def Let_def)

lemma sub_first_match:
  "s \<noteq> [] \<Longrightarrow> m bol s = Some (g, n) \<Longrightarrow>
   sub_first m items bol s = expand items (take n s) g @ drop n s"
  by (cases s) simp_all

lemma sub_first_base_services:
  assumes fa: "first_at base_marker pre"
    and body: "body \<noteq> []" "CHR '')'' \<notin> set body"
    and rest: "rest = [] \<or> starts_with '')'' rest"
  shows "sub_first re_base_services items bol (pre @ base_marker @ body @ rest)
         = pre @ expand items (base_marker @ body) (base_marker @ body) @ rest"
  using fa
proof (induction pre arbitrary: bol)
  case Nil
  have tw: "takeWhile (\<lambda>c. c \<noteq> CHR '')'') (body @ rest) = body"
    using body(2) rest by (cases rest) (auto simp: takeWhile_tail)
  have m: "re_base_services bol (base_marker @ body @ rest)
           = Some (base_marker @ body, length base_marker + length body)"
    using body(1) by (simp add: re_base_services_alt starts_with_append tw)
  have ne: "base_marker @ body @ rest \<noteq> []"
    using base_marker_nonempty by simp
  have "sub_first re_base_services items bol (base_marker @ body @ rest)
        = expand items (take (length base_marker + length body) (base_marker @ body @ rest))
            (base_marker @ body)
          @ drop (length base_marker + length body) (base_marker @ body @ rest)"
    by (rule sub_first_match [where m = re_base_services and bol = bol, OF ne m])
  then show ?case by simp
next
  case (Cons c pre)
  from first_at_Cons [OF Cons.prems] have fa': "first_at base_marker pre"
    and ns: "\<not> starts_with base_marker (c # pre @ base_marker)" by simp_all
  have "\<not> starts_with base_marker (c # pre @ base_marker @ body @ rest)"
    using ns starts_with_longer [of base_marker "c # pre @ base_marker" "body @ rest"] by simp
  then have "re_base_services bol (c # pre @ base_marker @ body @ rest) = None"
    by (simp add: re_base_services_alt)
  then show ?case using Cons.IH [OF fa'] by simp
qed

lemma service_line_template:
  assumes n: "normalize_name (name cfg) = name cfg"
    and d: "bs \<notin> set (py_str (display_name cfg))"
  shows "parse_template (tokens ([bs, CHR ''1'', nl] @ service_line cfg))
         = Inr (Group 1 # Lit nl # map Lit (service_line cfg))"
proof -
  have b: "bs \<notin> set (service_line cfg)"
    using normalized_no_bs [OF n] d by (simp add: service_line_def bs_def dq_def nl_def)
  have "parse_template (tokens (bs # CHR ''1'' # nl # service_line cfg))
        = Inr (Group 1 # Lit nl # map Lit (service_line cfg))"
    by (rule parse_group1 [OF b]) (simp_all add: is_digit_def digit_chars_def bs_def nl_def)
  then show ?thesis by simp
qed

lemma wizard_fallback_general:
  assumes "\<not> contains ([dq] @ ''outline'' @ [dq]) content"
    and "\<not> contains ([dq] @ ''docmost'' @ [dq]) content"
    and "occurrences base_marker content = 1"
    and "content = pre @ base_marker @ body @ rest"
    and "body \<noteq> []" and "CHR '')'' \<notin> set body"
    and "rest = [] \<or> starts_with '')'' rest"
    and "normalize_name (name cfg) = name cfg"
    and "bs \<notin> set (py_str (display_name cfg))"
  shows "wizard_edit cfg content = Inr (pre @ base_marker @ body @ [nl] @ service_line cfg @ rest)"
proof -
  have fa: "first_at base_marker pre"
    using assms(3) unfolding assms(4)
    by (rule occurrences_first [where post = "body @ rest", OF base_marker_nonempty])
  have e: "expand (Group 1 # Lit nl # map Lit (service_line cfg)) (base_marker @ body) (base_marker @ body)
           = base_marker @ body @ [nl] @ service_line cfg"
    by (simp add: expand_lits)
  have s: "sub_first re_base_services (Group 1 # Lit nl # map Lit (service_line cfg)) True
             (pre @ base_marker @ body @ rest)
           = pre @ expand (Group 1 # Lit nl # map Lit (service_line cfg))
                 (base_marker @ body) (base_marker @ body) @ rest"
    by (rule sub_first_base_services [OF fa assms(5) assms(6) assms(7)])
  have "wizard_edit cfg content
        = re_sub1 re_base_services ([bs, CHR ''1'', nl] @ service_line cfg) content"
    using assms(1,2) by (simp add: wizard_edit_def)
  also have "\<dots> = Inr (sub_first re_base_services (Group 1 # Lit nl # map Lit (service_line cfg)) True content)"
    unfolding re_sub1_def service_line_template [OF assms(8) assms(9)] exn_bind_def by simp
  also have "\<dots> = Inr (pre @ base_marker @ body @ [nl] @ service_line cfg @ rest)"
    unfolding assms(4) s e by simp
  finally show ?thesis .
qed

lemma demo_wizard_facts:
  "\<not> contains ([dq] @ ''outline'' @ [dq]) demo_wizard"
  "\<not> contains ([dq] @ ''docmost'' @ [dq]) demo_wizard"
  "occurrences base_marker demo_wizard = 1"
  by (simp_all add: demo_wizard_def base_marker_def dq_def nl_def)

lemma demo_wizard_split:
  "demo_wizard = ''#!/bin/bash'' @ base_marker
     @ ([nl] @ ''    '' @ [dq] @ ''n8n'' @ [dq] @ '' '' @ [dq] @ ''n8n'' @ [dq] @ [nl])
     @ ('')'' @ [nl])"
  by (simp add: demo_wizard_def)

lemma demo_display_plain: "bs \<notin> set (py_str (display_name demo_config))"
  by (simp add: demo_config_def bs_def)

lemma demo_wizard_edit:
  "wizard_edit demo_config demo_wizard =
     Inr (''#!/bin/bash'' @ base_marker
          @ ([nl] @ ''    '' @ [dq] @ ''n8n'' @ [dq] @ '' '' @ [dq] @ ''n8n'' @ [dq] @ [nl])
          @ [nl] @ service_line demo_config @ ('')'' @ [nl]))"
  by (rule wizard_fallback_general [OF demo_wizard_facts demo_wizard_split _ _ _
        demo_name_normal demo_display_plain])
     (simp_all add: dq_def nl_def)

text \<open>
  Claim C5, as stated, fails: on the example wizard script, which has neither anchor, the
  new entry line comes after the existing entry, in front of the closing parenthesis, and
  not right after the opening marker.
\<close>

theorem wizard_fallback_after_entries:
  "wizard_edit demo_config demo_wizard =
     Inr (''#!/bin/bash'' @ base_marker @ [nl]
          @ ''    '' @ [dq] @ ''n8n'' @ [dq] @ '' '' @ [dq] @ ''n8n'' @ [dq] @ [nl]
          @ [nl] @ service_line demo_config @ '')'' @ [nl])
   \<and> wizard_edit demo_config demo_wizard \<noteq>
     Inr (''#!/bin/bash'' @ base_marker @ [nl]
          @ service_line demo_config
          @ ''    '' @ [dq] @ ''n8n'' @ [dq] @ '' '' @ [dq] @ ''n8n'' @ [dq] @ [nl]
          @ '')'' @ [nl])"
  unfolding demo_wizard_edit
  by (simp add: service_line_def demo_config_def dq_def nl_def)

text \<open>
  Claim C5, amended. Let the wizard script, as read, contain neither anchor and one data
  block, in which no closing parenthesis occurs between the opening marker
  \<^verbatim>\<open>base_services_data=(\<close> and the closing parenthesis of the block, which stands at the
  start of a line. Then \<^verbatim>\<open>add_to_wizard\<close> completes and puts a newline and the new entry line
  right in front of that closing parenthesis: after every entry of the block, not after
  the opening marker. (The descriptor's name is normalised and its display name has no
  backslash, so that the replacement template is literal.)
\<close>

theorem wizard_fallback_before_paren:
  assumes "f ''scripts/install/04_wizard.sh'' = Some (File stored)"
    and "universal_newlines stored = content"
    and "\<not> contains ([dq] @ ''outline'' @ [dq]) content"
    and "\<not> contains ([dq] @ ''docmost'' @ [dq]) content"
    and "occurrences ([nl] @ ''base_services_data=('') content = 1"
    and "content = pre @ [nl] @ ''base_services_data=('' @ body @ [nl] @ '')'' @ rest"
    and "CHR '')'' \<notin> set body"
    and "normalize_name (name cfg) = name cfg"
    and "bs \<notin> set (py_str (display_name cfg))"
  shows "add_to_wizard cfg f =
     (None, f(''scripts/install/04_wizard.sh'' \<mapsto>
        File (pre @ [nl] @ ''base_services_data=('' @ body @ [nl]
              @ [nl] @ ''    '' @ [dq] @ name cfg @ [dq] @ '' '' @ [dq] @ py_str (display_name cfg)
              @ [dq] @ [nl]
              @ '')'' @ rest)))"
proof -
  have o: "occurrences base_marker content = 1"
    using assms(5) by (simp add: base_marker_def)
  have c: "content = pre @ base_marker @ (body @ [nl]) @ ('')'' @ rest)"
    using assms(6) by (simp add: base_marker_def)
  have b: "body @ [nl] \<noteq> []" "CHR '')'' \<notin> set (body @ [nl])"
    using assms(7) by (simp_all add: nl_def)
  have r: "'')'' @ rest = [] \<or> starts_with '')'' ('')'' @ rest)"
    by simp
  have e: "wizard_edit cfg content
           = Inr (pre @ base_marker @ (body @ [nl]) @ [nl] @ service_line cfg @ ('')'' @ rest))"
    by (rule wizard_fallback_general [OF assms(3) assms(4) o c b r assms(8) assms(9)])
  have "add_to_wizard cfg f =
     (None, f(''scripts/install/04_wizard.sh'' \<mapsto>
        File (pre @ base_marker @ (body @ [nl]) @ [nl] @ service_line cfg @ ('')'' @ rest))))"
    using assms(1) assms(2) e by (simp add: add_to_wizard_def rewrite_file_def read_file_def)
  then show ?thesis by (simp add: base_marker_def service_line_def)
qed

theorem wizard_fallback_before_paren_witness:
  "universal_newlines demo_wizard = demo_wizard
   \<and> occurrences ([nl] @ ''base_services_data=('') demo_wizard = 1
   \<and> demo_wizard = ''#!/bin/bash'' @ [nl] @ ''base_services_data=(''
       @ ([nl] @ ''    '' @ [dq] @ ''n8n'' @ [dq] @ '' '' @ [dq] @ ''n8n'' @ [dq])
       @ [nl] @ '')'' @ [nl]
   \<and> add_to_wizard demo_config [''scripts/install/04_wizard.sh'' \<mapsto> File demo_wizard]
     = (None, [''scripts/install/04_wizard.sh'' \<mapsto>
         File (''#!/bin/bash'' @ [nl] @ ''base_services_data=(''
               @ ([nl] @ ''    '' @ [dq] @ ''n8n'' @ [dq] @ '' '' @ [dq] @ ''n8n'' @ [dq]) @ [nl]
               @ [nl] @ ''    '' @ [dq] @ ''svc'' @ [dq] @ '' '' @ [dq] @ ''Svc'' @ [dq] @ [nl]
               @ '')'' @ [nl])])"
proof -
  have u: "universal_newlines demo_wizard = demo_wizard"
    by (rule universal_newlines_id) (simp add: demo_wizard_def base_marker_def cr_def nl_def dq_def)
  have o: "occurrences ([nl] @ ''base_services_data=('') demo_wizard = 1"
    using demo_wizard_facts(3) by (simp add: base_marker_def)
  have s: "demo_wizard = ''#!/bin/bash'' @ [nl] @ ''base_services_data=(''
       @ ([nl] @ ''    '' @ [dq] @ ''n8n'' @ [dq] @ '' '' @ [dq] @ ''n8n'' @ [dq])
       @ [nl] @ '')'' @ [nl]"
    by (simp add: demo_wizard_def base_marker_def)
  have f: "[''scripts/install/04_wizard.sh'' \<mapsto> File demo_wizard] ''scripts/install/04_wizard.sh''
           = Some (File demo_wizard)"
    by simp
  have b: "CHR '')'' \<notin> set ([nl] @ ''    '' @ [dq] @ ''n8n'' @ [dq] @ '' '' @ [dq] @ ''n8n'' @ [dq])"
    by (simp add: nl_def dq_def)
  from wizard_fallback_before_paren [where f = "[''scripts/install/04_wizard.sh'' \<mapsto> File demo_wizard]"
      and stored = demo_wizard and content = demo_wizard and cfg = demo_config
      and pre = "''#!/bin/bash''"
      and body = "[nl] @ ''    '' @ [dq] @ ''n8n'' @ [dq] @ '' '' @ [dq] @ ''n8n'' @ [dq]"
      and rest = "[nl]",
      OF f u demo_wizard_facts(1) demo_wizard_facts(2) o s b demo_name_normal demo_display_plain]
  have "add_to_wizard demo_config [''scripts/install/04_wizard.sh'' \<mapsto> File demo_wizard]
     = (None, [''scripts/install/04_wizard.sh'' \<mapsto>
         File (''#!/bin/bash'' @ [nl] @ ''base_services_data=(''
               @ ([nl] @ ''    '' @ [dq] @ ''n8n'' @ [dq] @ '' '' @ [dq] @ ''n8n'' @ [dq]) @ [nl]
               @ [nl] @ ''    '' @ [dq] @ ''svc'' @ [dq] @ '' '' @ [dq] @ ''Svc'' @ [dq] @ [nl]
               @ '')'' @ [nl])])"
    by (simp add: demo_config_def)
  with u o s show ?thesis by blast
qed













end
